theory Spec2Isabelle
  imports Complex_Main "HOL-Library.Char_ord" "HOL-Library.List_Lexorder" "HOL-Library.Sublist"
begin

section \<open>Numbers\<close>

text \<open>
  The value of a Python float: a finite number, one of the two infinities, or NaN. The
  finite values are reals; those a float can hold are the binary64 numbers, and the
  arithmetic further down rounds every result to one of them. Every comparison of the
  classification is against a constant that a float holds exactly (2.0, 3.5, 5.0, 6.5),
  so comparing the real values is what the interpreter does. An integer score is its
  value. An optional score is \<open>pynum option\<close>, with \<open>None\<close> for Python's \<open>None\<close>.
\<close>

datatype pynum = NaN | NegInf | PosInf | Num real

text \<open>\<open>score < c\<close> for a finite constant \<open>c\<close>; any comparison with NaN is false.\<close>

fun num_lt :: "pynum \<Rightarrow> real \<Rightarrow> bool" where
  "num_lt NaN c = False"
| "num_lt NegInf c = True"
| "num_lt PosInf c = False"
| "num_lt (Num r) c = (r < c)"

text \<open>\<open>pd.isna\<close> on a scalar number.\<close>

fun isna :: "pynum \<Rightarrow> bool" where
  "isna NaN = True"
| "isna _ = False"

section \<open>The two classification schemes\<close>

fun categorize_go_platform :: "pynum option \<Rightarrow> int \<times> string" where
  "categorize_go_platform None = (0, ''No Data'')"
| "categorize_go_platform (Some score) =
     (if isna score then (0, ''No Data'')
      else if num_lt score 2.0 then (1, ''Very Low'')
      else if num_lt score 3.5 then (2, ''Low'')
      else if num_lt score 5.0 then (3, ''Medium'')
      else if num_lt score 6.5 then (4, ''High'')
      else (5, ''Very High''))"

fun categorize_inform :: "pynum option \<Rightarrow> string" where
  "categorize_inform None = ''No Data''"
| "categorize_inform (Some score) =
     (if isna score then ''No Data''
      else if num_lt score 2.0 then ''Very Low''
      else if num_lt score 3.5 then ''Low''
      else if num_lt score 5.0 then ''Medium''
      else if num_lt score 6.5 then ''High''
      else ''Very High'')"

section \<open>Binary64 arithmetic\<close>

text \<open>
  A float operation gives the exact result rounded to the nearest binary64 number, a tie
  going to the one with an even significand; \<open>fl\<close> is that rounding. A binary64 number
  has a significand of 53 bits and an exponent from -1022 to 1023; below the smallest
  exponent the spacing stays that of exponent -1022, and a result that rounds to
  \<open>2 ^ 1024\<close> or beyond is an infinity. The sign of a zero is not kept.
\<close>

definition round_half_even :: "real \<Rightarrow> int" where
  "round_half_even x =
     (let f = \<lfloor>x\<rfloor>; d = x - of_int f
      in if d < 1 / 2 then f else if 1 / 2 < d then f + 1
         else if even f then f else f + 1)"

text \<open>The number of binary digits of a positive integer.\<close>

function bit_length :: "int \<Rightarrow> int" where
  "bit_length n = (if n \<le> 0 then 0 else 1 + bit_length (n div 2))"
  by pat_completeness auto
termination
  by (relation "measure nat") auto

declare bit_length.simps [simp del]

text \<open>The binary exponent of a positive real \<open>a\<close>: the \<open>e\<close> with \<open>2 ^ e \<le> a < 2 ^ (e + 1)\<close>.\<close>

definition exponent :: "real \<Rightarrow> int" where
  "exponent a =
     (if 1 \<le> a then bit_length \<lfloor>a\<rfloor> - 1
      else - bit_length (\<lceil>1 / a\<rceil> - 1))"

definition pow2 :: "int \<Rightarrow> real" where
  "pow2 e = (if 0 \<le> e then 2 ^ nat e else 1 / 2 ^ nat (- e))"

definition fl :: "real \<Rightarrow> pynum" where
  "fl x =
     (if x = 0 then Num 0
      else
        (let a = \<bar>x\<bar>;
             e = max (exponent a) (- 1022);
             ulp = pow2 (e - 52);
             r = of_int (round_half_even (a / ulp)) * ulp;
             inf = (if x < 0 then NegInf else PosInf)
         in if 1023 < e then inf
            else if e = 1023
            then (if pow2 1024 \<le> r then inf else Num (if x < 0 then - r else r))
            else Num (if x < 0 then - r else r)))"

text \<open>
  The float that a decimal number is read as, by \<open>json.loads\<close> and by \<open>pd.read_excel\<close>
  alike. A number written in a record or a table below is the decimal number of the text;
  the operations take its float where they read it. On a binary64 number this changes
  nothing.
\<close>

fun as_double :: "pynum \<Rightarrow> pynum" where
  "as_double (Num x) = fl x"
| "as_double f = f"

fun fadd :: "pynum \<Rightarrow> pynum \<Rightarrow> pynum" where
  "fadd NaN _ = NaN"
| "fadd _ NaN = NaN"
| "fadd (Num x) (Num y) = fl (x + y)"
| "fadd PosInf NegInf = NaN"
| "fadd NegInf PosInf = NaN"
| "fadd PosInf _ = PosInf"
| "fadd _ PosInf = PosInf"
| "fadd NegInf _ = NegInf"
| "fadd _ NegInf = NegInf"

fun fmul :: "pynum \<Rightarrow> pynum \<Rightarrow> pynum" where
  "fmul NaN _ = NaN"
| "fmul _ NaN = NaN"
| "fmul (Num x) (Num y) = fl (x * y)"
| "fmul (Num x) PosInf = (if x = 0 then NaN else if 0 < x then PosInf else NegInf)"
| "fmul (Num x) NegInf = (if x = 0 then NaN else if 0 < x then NegInf else PosInf)"
| "fmul PosInf (Num y) = (if y = 0 then NaN else if 0 < y then PosInf else NegInf)"
| "fmul NegInf (Num y) = (if y = 0 then NaN else if 0 < y then NegInf else PosInf)"
| "fmul PosInf PosInf = PosInf"
| "fmul PosInf NegInf = NegInf"
| "fmul NegInf PosInf = NegInf"
| "fmul NegInf NegInf = PosInf"

text \<open>
  Division as numpy does it on float columns: a division by zero gives an infinity or
  NaN and does not raise.
\<close>

fun fdiv :: "pynum \<Rightarrow> pynum \<Rightarrow> pynum" where
  "fdiv NaN _ = NaN"
| "fdiv _ NaN = NaN"
| "fdiv (Num x) (Num y) =
     (if y \<noteq> 0 then fl (x / y)
      else if x = 0 then NaN else if 0 < x then PosInf else NegInf)"
| "fdiv (Num x) PosInf = Num 0"
| "fdiv (Num x) NegInf = Num 0"
| "fdiv PosInf (Num y) = (if y < 0 then NegInf else PosInf)"
| "fdiv NegInf (Num y) = (if y < 0 then PosInf else NegInf)"
| "fdiv PosInf PosInf = NaN"
| "fdiv PosInf NegInf = NaN"
| "fdiv NegInf PosInf = NaN"
| "fdiv NegInf NegInf = NaN"

text \<open>\<open>np.sqrt\<close>: the square root of a negative number is NaN.\<close>

fun fsqrt :: "pynum \<Rightarrow> pynum" where
  "fsqrt NaN = NaN"
| "fsqrt NegInf = NaN"
| "fsqrt PosInf = PosInf"
| "fsqrt (Num r) = (if r < 0 then NaN else fl (sqrt r))"

text \<open>\<open>np.rint\<close>: to the nearest integer, a tie going to the even one.\<close>

fun rint :: "pynum \<Rightarrow> pynum" where
  "rint (Num r) = Num (of_int (round_half_even r))"
| "rint f = f"

text \<open>
  The \<open>round\<close> of numpy, which \<open>Series.round\<close> and the \<open>round\<close> of a numpy scalar use:
  multiply by \<open>10 ^ n\<close>, round to an integer, divide by \<open>10 ^ n\<close>, each a float operation.
\<close>

definition np_round :: "pynum \<Rightarrow> nat \<Rightarrow> pynum" where
  "np_round x n = fdiv (rint (fmul x (Num (10 ^ n)))) (Num (10 ^ n))"

text \<open>
  The \<open>round(x, n)\<close> of a Python float: the exact value of \<open>x\<close> rounded to \<open>n\<close> decimals, a tie
  going to the even digit, and the float nearest to that. NaN and the infinities stay.
\<close>

fun py_round :: "pynum \<Rightarrow> nat \<Rightarrow> pynum" where
  "py_round (Num r) n = fl (of_int (round_half_even (r * 10 ^ n)) / 10 ^ n)"
| "py_round f n = f"

text \<open>\<open>a < b\<close> on floats; a comparison with NaN is false.\<close>

fun num_less :: "pynum \<Rightarrow> pynum \<Rightarrow> bool" where
  "num_less NaN _ = False"
| "num_less _ NaN = False"
| "num_less (Num x) (Num y) = (x < y)"
| "num_less NegInf NegInf = False"
| "num_less NegInf _ = True"
| "num_less _ NegInf = False"
| "num_less PosInf _ = False"
| "num_less _ PosInf = True"

section \<open>Python values and errors\<close>

text \<open>
  The exceptions the modelled functions can raise. A function that can raise returns
  \<open>error + 'a\<close>, with \<open>Inl\<close> for the exception.
\<close>

datatype error =
    ApiRequestFailed int
  | ConnectionError
  | JSONDecodeError
  | KeyError string
  | TypeError
  | IndexError
  | OverflowError
  | ZeroDivisionError

text \<open>A Python number: an integer of any size, or a float.\<close>

datatype pyval = PyInt int | PyFloat pynum

fun num_of :: "pyval \<Rightarrow> pynum" where
  "num_of (PyInt i) = Num (of_int i)"
| "num_of (PyFloat f) = f"

text \<open>The truth value of a number: zero is false, NaN is true.\<close>

fun truthy :: "pyval \<Rightarrow> bool" where
  "truthy (PyInt i) = (i \<noteq> 0)"
| "truthy (PyFloat (Num x)) = (x \<noteq> 0)"
| "truthy (PyFloat f) = True"

text \<open>\<open>float(i)\<close>: an integer too large for a float raises OverflowError.\<close>

definition float_of_int :: "int \<Rightarrow> error + pynum" where
  "float_of_int i = (case fl (of_int i) of Num r \<Rightarrow> Inr (Num r) | _ \<Rightarrow> Inl OverflowError)"

text \<open>\<open>a + b\<close>: exact on two integers; an integer meeting a float is made a float first.\<close>

fun py_add :: "pyval \<Rightarrow> pyval \<Rightarrow> error + pyval" where
  "py_add (PyInt a) (PyInt b) = Inr (PyInt (a + b))"
| "py_add (PyInt a) (PyFloat g) =
     (case float_of_int a of Inl e \<Rightarrow> Inl e | Inr f \<Rightarrow> Inr (PyFloat (fadd f g)))"
| "py_add (PyFloat f) (PyInt b) =
     (case float_of_int b of Inl e \<Rightarrow> Inl e | Inr g \<Rightarrow> Inr (PyFloat (fadd f g)))"
| "py_add (PyFloat f) (PyFloat g) = Inr (PyFloat (fadd f g))"

text \<open>
  \<open>sum(xs)\<close>: starting from the integer 0, the elements are added one after the other from
  the left. (From Python 3.12 on, \<open>sum\<close> adds floats with a correction term; the model is
  the plain sum of the versions before.)
\<close>

fun sum_from :: "pyval \<Rightarrow> pyval list \<Rightarrow> error + pyval" where
  "sum_from result [] = Inr result"
| "sum_from result (x # xs) =
     (case py_add result x of Inl e \<Rightarrow> Inl e | Inr result \<Rightarrow> sum_from result xs)"

definition py_sum :: "pyval list \<Rightarrow> error + pyval" where
  "py_sum xs = sum_from (PyInt 0) xs"

text \<open>
  \<open>a / b\<close>: the quotient of two integers is the float nearest to the exact quotient, and
  OverflowError if that is too large; a division by zero raises.
\<close>

definition float_truediv :: "pynum \<Rightarrow> pynum \<Rightarrow> error + pyval" where
  "float_truediv f g = (if g = Num 0 then Inl ZeroDivisionError else Inr (PyFloat (fdiv f g)))"

fun py_truediv :: "pyval \<Rightarrow> pyval \<Rightarrow> error + pyval" where
  "py_truediv (PyInt a) (PyInt b) =
     (if b = 0 then Inl ZeroDivisionError
      else case fl (of_int a / of_int b) of
             Num r \<Rightarrow> Inr (PyFloat (Num r))
           | _ \<Rightarrow> Inl OverflowError)"
| "py_truediv (PyInt a) (PyFloat g) =
     (case float_of_int a of Inl e \<Rightarrow> Inl e | Inr f \<Rightarrow> float_truediv f g)"
| "py_truediv (PyFloat f) (PyInt b) =
     (case float_of_int b of Inl e \<Rightarrow> Inl e | Inr g \<Rightarrow> float_truediv f g)"
| "py_truediv (PyFloat f) (PyFloat g) = float_truediv f g"

text \<open>\<open>round(x, n)\<close> for \<open>n\<close> decimals: an integer stays as it is.\<close>

fun py_round_val :: "pyval \<Rightarrow> nat \<Rightarrow> pyval" where
  "py_round_val (PyInt i) n = PyInt i"
| "py_round_val (PyFloat f) n = PyFloat (py_round f n)"

text \<open>\<open>a > b\<close> on numbers compares the exact values.\<close>

definition py_gt :: "pyval \<Rightarrow> pyval \<Rightarrow> bool" where
  "py_gt a b = num_less (num_of b) (num_of a)"

text \<open>\<open>max(xs)\<close> on a non-empty list: the first element that no later one exceeds.\<close>

definition py_max :: "pyval list \<Rightarrow> pyval" where
  "py_max xs =
     fold (\<lambda>item maxitem. if py_gt item maxitem then item else maxitem) (tl xs) (hd xs)"

text \<open>A number as \<open>json.loads\<close> hands it over.\<close>

fun json_number :: "pyval \<Rightarrow> pyval" where
  "json_number (PyInt i) = PyInt i"
| "json_number (PyFloat f) = PyFloat (as_double f)"

text \<open>A cell of a numeric column of a DataFrame, which holds float64 values.\<close>

fun np_float64 :: "pyval \<Rightarrow> pynum" where
  "np_float64 (PyInt i) = fl (of_int i)"
| "np_float64 (PyFloat f) = as_double f"

text \<open>
  A key of a JSON object that the code reads with \<open>.get\<close>: the key can be absent, hold
  \<open>null\<close>, or hold a value.
\<close>

datatype 'a jfield = Missing | Null | Val 'a

text \<open>\<open>record.get(key, default)\<close> on a number key: only an absent key takes the default.\<close>

fun get_default :: "pyval jfield \<Rightarrow> pyval \<Rightarrow> pyval option" where
  "get_default Missing d = Some d"
| "get_default Null d = None"
| "get_default (Val v) d = Some (json_number v)"

text \<open>\<open>record.get(month, 0) or 0\<close>: absent, \<open>null\<close> and a zero all give the integer 0.\<close>

fun get_or_zero :: "pyval jfield \<Rightarrow> pyval" where
  "get_or_zero Missing = PyInt 0"
| "get_or_zero Null = PyInt 0"
| "get_or_zero (Val v) = (if truthy (json_number v) then json_number v else PyInt 0)"

text \<open>\<open>str.upper\<close> on ASCII text, which ISO3 codes are.\<close>

definition upper_char :: "char \<Rightarrow> char" where
  "upper_char c =
     (let n = (of_char c :: nat)
      in if 97 \<le> n \<and> n \<le> 122 then char_of (n - 32) else c)"

definition upper :: "string \<Rightarrow> string" where
  "upper s = map upper_char s"

section \<open>Records of the risk-score API\<close>

text \<open>
  One item of the API's \<open>results\<close> list. The keys the code indexes with \<open>[...]\<close> are fields
  of their type; the keys it reads with \<open>.get\<close> are \<open>jfield\<close>s holding a number.
\<close>

record country_details =
  name :: string
  iso3 :: string

record risk_record =
  country_details :: country_details
  hazard_type_display :: string
  january :: "pyval jfield"
  february :: "pyval jfield"
  march :: "pyval jfield"
  april :: "pyval jfield"
  may :: "pyval jfield"
  june :: "pyval jfield"
  july :: "pyval jfield"
  august :: "pyval jfield"
  september :: "pyval jfield"
  october :: "pyval jfield"
  november :: "pyval jfield"
  december :: "pyval jfield"
  yearly_sum :: "pyval jfield"
  lcc :: "pyval jfield"
  vulnerability :: "pyval jfield"
  population_in_thousands :: "pyval jfield"

definition NORTH_AFRICA_COUNTRIES :: "string list" where
  "NORTH_AFRICA_COUNTRIES = [''Morocco'', ''Tunisia'', ''Algeria'', ''Libya'', ''Egypt'']"

definition INCLUDED_HAZARDS :: "string list" where
  "INCLUDED_HAZARDS = [''Drought'', ''Flood'', ''Wildfire'']"

section \<open>Filtering by hazard type\<close>

text \<open>
  \<open>hazard_types\<close> is \<open>None\<close> when the caller leaves the argument out. The progress line
  the function prints is not modelled.
\<close>

definition filter_by_hazard_type :: "risk_record list \<Rightarrow> string list option \<Rightarrow> risk_record list" where
  "filter_by_hazard_type results hazard_types =
     (let hazard_types = (case hazard_types of None \<Rightarrow> INCLUDED_HAZARDS | Some hs \<Rightarrow> hs)
      in [rec \<leftarrow> results. hazard_type_display rec \<in> set hazard_types])"

section \<open>Processing the records\<close>

text \<open>
  A row of the detailed table is a dictionary with fixed keys, so a record. The five
  columns that the country summary copies are a record of their own, which both row types
  extend; the order of the keys within a row plays no role in the analysis.
\<close>

record country_cols =
  Country :: string
  ISO3 :: string
  Population_Thousands :: "pyval option"
  LCC :: "pyval option"
  Vulnerability :: "pyval option"

record processed = country_cols +
  Hazard_Type :: string
  January :: pyval
  February :: pyval
  March :: pyval
  April :: pyval
  May :: pyval
  June :: pyval
  July :: pyval
  August :: pyval
  September :: pyval
  October :: pyval
  November :: pyval
  December :: pyval
  Yearly_Sum :: pyval
  Yearly_Average :: pyval
  Peak_Month_Score :: pyval
  GO_Category_Num :: int
  GO_Category :: string
  INFORM_Category :: string
  Peak_GO_Num :: int
  Peak_GO_Category :: string
  Peak_INFORM_Category :: string

definition months :: "(risk_record \<Rightarrow> pyval jfield) list" where
  "months = [january, february, march, april, may, june,
             july, august, september, october, november, december]"

definition monthly_scores_of :: "risk_record \<Rightarrow> pyval list" where
  "monthly_scores_of rec = [get_or_zero (month rec). month \<leftarrow> months]"

text \<open>
  \<open>record.get('yearly_sum', sum(monthly_scores))\<close>: the sum is computed before the key is
  looked up, so it can raise even when the key is there; the value is \<open>None\<close> when the key
  holds \<open>null\<close>.
\<close>

definition yearly_sum_of :: "risk_record \<Rightarrow> error + pyval option" where
  "yearly_sum_of rec =
     (case py_sum (monthly_scores_of rec) of
        Inl e \<Rightarrow> Inl e
      | Inr monthly_total \<Rightarrow> Inr (get_default (yearly_sum rec) monthly_total))"

text \<open>\<open>yearly_sum / 12 if yearly_sum else 0\<close>: \<open>None\<close> and a zero are both falsy.\<close>

definition yearly_avg_of :: "pyval option \<Rightarrow> error + pyval" where
  "yearly_avg_of ys =
     (case ys of
        None \<Rightarrow> Inr (PyInt 0)
      | Some v \<Rightarrow> if truthy v then py_truediv v (PyInt 12) else Inr (PyInt 0))"

text \<open>
  The body of the loop, for one record. It raises OverflowError when the sum or the
  division meets an integer too large for a float, and TypeError at \<open>round(yearly_sum, 2)\<close>
  when the record holds \<open>null\<close> under \<open>yearly_sum\<close>.
\<close>

definition process_record :: "risk_record \<Rightarrow> error + processed" where
  "process_record rec =
     (let country_name = name (country_details rec);
          country_iso3 = upper (iso3 (country_details rec));
          hazard_type = hazard_type_display rec;
          monthly_scores = monthly_scores_of rec
      in case yearly_sum_of rec of
           Inl e \<Rightarrow> Inl e
         | Inr got \<Rightarrow>
             (case yearly_avg_of got of
                Inl e \<Rightarrow> Inl e
              | Inr yearly_avg \<Rightarrow>
                  (let yearly_sum = got;
                       peak_month_score =
                         (if monthly_scores \<noteq> [] then py_max monthly_scores else PyInt 0);
                       (go_cat_num, go_cat_name) =
                         categorize_go_platform (Some (num_of yearly_avg));
                       inform_category = categorize_inform (Some (num_of yearly_avg));
                       (peak_go_num, peak_go_name) =
                         categorize_go_platform (Some (num_of peak_month_score));
                       peak_inform = categorize_inform (Some (num_of peak_month_score));
                       lcc = get_default (lcc rec) (PyInt 0);
                       vulnerability = get_default (vulnerability rec) (PyInt 0);
                       population = get_default (population_in_thousands rec) (PyInt 0)
                   in case yearly_sum of
                        None \<Rightarrow> Inl TypeError
                      | Some ys \<Rightarrow> Inr \<lparr>
                          Country = country_name,
                          ISO3 = country_iso3,
                          Population_Thousands = population,
                          LCC = lcc,
                          Vulnerability = vulnerability,
                          Hazard_Type = hazard_type,
                          January = monthly_scores ! 0,
                          February = monthly_scores ! 1,
                          March = monthly_scores ! 2,
                          April = monthly_scores ! 3,
                          May = monthly_scores ! 4,
                          June = monthly_scores ! 5,
                          July = monthly_scores ! 6,
                          August = monthly_scores ! 7,
                          September = monthly_scores ! 8,
                          October = monthly_scores ! 9,
                          November = monthly_scores ! 10,
                          December = monthly_scores ! 11,
                          Yearly_Sum = py_round_val ys 2,
                          Yearly_Average = py_round_val yearly_avg 2,
                          Peak_Month_Score = py_round_val peak_month_score 2,
                          GO_Category_Num = go_cat_num,
                          GO_Category = go_cat_name,
                          INFORM_Category = inform_category,
                          Peak_GO_Num = peak_go_num,
                          Peak_GO_Category = peak_go_name,
                          Peak_INFORM_Category = peak_inform \<rparr>)))"

text \<open>The loop: rows are appended in input order, and the first exception ends it.\<close>

fun process_loop :: "processed list \<Rightarrow> risk_record list \<Rightarrow> error + processed list" where
  "process_loop processed_data [] = Inr processed_data"
| "process_loop processed_data (rec # rest) =
     (case process_record rec of
        Inl e \<Rightarrow> Inl e
      | Inr row \<Rightarrow> process_loop (processed_data @ [row]) rest)"

definition process_risk_data :: "risk_record list \<Rightarrow> error + processed list" where
  "process_risk_data results = process_loop [] results"

section \<open>Sample inputs\<close>

text \<open>
  An API record with given country name, ISO3 code, hazard, one value \<open>m\<close> for nine of its
  months and a given \<open>yearly_sum\<close> key, the numbers being floats; March holds \<open>null\<close>, April
  is absent and December is 3.
\<close>

fun float_field :: "real jfield \<Rightarrow> pyval jfield" where
  "float_field Missing = Missing"
| "float_field Null = Null"
| "float_field (Val x) = Val (PyFloat (Num x))"

definition sample_record :: "string \<Rightarrow> string \<Rightarrow> string \<Rightarrow> real jfield \<Rightarrow> real jfield \<Rightarrow> risk_record" where
  "sample_record n i h m ys =
     \<lparr> country_details = \<lparr> name = n, iso3 = i \<rparr>, hazard_type_display = h,
       january = float_field m, february = float_field m, march = Null, april = Missing,
       may = float_field m, june = float_field m, july = float_field m,
       august = float_field m, september = float_field m, october = float_field m,
       november = float_field m, december = Val (PyFloat (Num 3)),
       yearly_sum = float_field ys, lcc = Missing, vulnerability = Null,
       population_in_thousands = Val (PyInt 100) \<rparr>"

text \<open>A record whose twelve monthly scores are given one by one, with no other number.\<close>

definition monthly_record :: "pyval jfield list \<Rightarrow> pyval jfield \<Rightarrow> risk_record" where
  "monthly_record ms ys =
     \<lparr> country_details = \<lparr> name = ''Mali'', iso3 = ''mli'' \<rparr>,
       hazard_type_display = ''Flood'',
       january = ms ! 0, february = ms ! 1, march = ms ! 2, april = ms ! 3,
       may = ms ! 4, june = ms ! 5, july = ms ! 6, august = ms ! 7,
       september = ms ! 8, october = ms ! 9, november = ms ! 10, december = ms ! 11,
       yearly_sum = ys, lcc = Missing, vulnerability = Missing,
       population_in_thousands = Missing \<rparr>"

text \<open>
  A record without the \<open>yearly_sum\<close> key whose months are 0, \<open>null\<close> and ten times 2.4, and
  a record without months whose \<open>yearly_sum\<close> is 0.06.
\<close>

definition sample_fallback :: risk_record where
  "sample_fallback =
     monthly_record
       [Val (PyInt 0), Null,
        Val (PyFloat (Num 2.4)), Val (PyFloat (Num 2.4)), Val (PyFloat (Num 2.4)),
        Val (PyFloat (Num 2.4)), Val (PyFloat (Num 2.4)), Val (PyFloat (Num 2.4)),
        Val (PyFloat (Num 2.4)), Val (PyFloat (Num 2.4)), Val (PyFloat (Num 2.4)),
        Val (PyFloat (Num 2.4))]
       Missing"

definition sample_small :: risk_record where
  "sample_small =
     monthly_record
       [Missing, Missing, Missing, Missing, Missing, Missing,
        Missing, Missing, Missing, Missing, Missing, Missing]
       (Val (PyFloat (Num 0.06)))"

section \<open>The country summary\<close>

text \<open>
  The detailed table \<open>df\<close> is the frame that \<open>pd.DataFrame\<close> builds from the list of rows,
  given here as that list. Its numeric columns are taken to hold float64 values, as they
  do once a column holds a float; a column of integers alone holds the integers, which
  are the same numbers up to \<open>2 ^ 53\<close>. A summary row is a dictionary too; its per-hazard
  keys are built from the hazard name (\<open>f'{hazard}_Sum'\<close> and so on), so they are kept as
  one group of columns per hazard name, in the order the loop sets them.
\<close>

record hazard_cols =
  H_Sum :: pynum
  H_Avg :: pynum
  H_Peak :: pynum
  H_GO_Num :: int
  H_GO_Cat :: string
  H_INFORM :: string

record summary_row = country_cols +
  hazard_columns :: "(string \<times> hazard_cols) list"
  Overall_Avg :: pynum
  Overall_GO_Num :: int
  Overall_GO_Cat :: string
  Overall_INFORM :: string

text \<open>\<open>Series.unique()\<close>: the distinct values in order of first appearance.\<close>

definition unique :: "'a list \<Rightarrow> 'a list" where
  "unique xs = rev (remdups (rev xs))"

text \<open>The columns of one hazard for one country: the body of the inner loop.\<close>

definition hazard_cols_of :: "processed list \<Rightarrow> string \<Rightarrow> hazard_cols" where
  "hazard_cols_of country_data hazard =
     (let hazard_row = [r \<leftarrow> country_data. Hazard_Type r = hazard]
      in case hazard_row of
           first # _ \<Rightarrow>
             \<lparr> H_Sum = np_float64 (Yearly_Sum first),
               H_Avg = np_float64 (Yearly_Average first),
               H_Peak = np_float64 (Peak_Month_Score first),
               H_GO_Num = GO_Category_Num first,
               H_GO_Cat = GO_Category first,
               H_INFORM = INFORM_Category first \<rparr>
         | [] \<Rightarrow>
             \<lparr> H_Sum = Num 0, H_Avg = Num 0, H_Peak = Num 0, H_GO_Num = 0,
               H_GO_Cat = ''No Data'', H_INFORM = ''No Data'' \<rparr>)"

text \<open>\<open>row.get(f'{h}_Avg', 0)\<close>.\<close>

definition get_avg :: "(string \<times> hazard_cols) list \<Rightarrow> string \<Rightarrow> pynum" where
  "get_avg cols h = (case map_of cols h of None \<Rightarrow> Num 0 | Some c \<Rightarrow> H_Avg c)"

text \<open>
  The body of the outer loop, for one country. \<open>.iloc[0]\<close> raises IndexError on a
  selection without rows. The averages are added from the left, starting from 0, and the
  total is a numpy float, so \<open>round\<close> is that of numpy.
\<close>

definition summary_row_of :: "processed list \<Rightarrow> string \<Rightarrow> error + summary_row" where
  "summary_row_of df country =
     (let country_data = [r \<leftarrow> df. Country r = country]
      in case country_data of
           [] \<Rightarrow> Inl IndexError
         | first # _ \<Rightarrow>
             (let cols = [(hazard, hazard_cols_of country_data hazard).
                            hazard \<leftarrow> INCLUDED_HAZARDS];
                  hazard_avgs = [get_avg cols h. h \<leftarrow> INCLUDED_HAZARDS];
                  total_avg = fdiv (foldl fadd (Num 0) hazard_avgs)
                                (Num (real (length INCLUDED_HAZARDS)));
                  (go_num, go_cat) = categorize_go_platform (Some total_avg)
              in Inr \<lparr>
                   Country = country,
                   ISO3 = ISO3 first,
                   Population_Thousands = Population_Thousands first,
                   LCC = LCC first,
                   Vulnerability = Vulnerability first,
                   hazard_columns = cols,
                   Overall_Avg = np_round total_avg 2,
                   Overall_GO_Num = go_num,
                   Overall_GO_Cat = go_cat,
                   Overall_INFORM = categorize_inform (Some total_avg) \<rparr>))"

fun summary_loop :: "processed list \<Rightarrow> summary_row list \<Rightarrow> string list \<Rightarrow> error + summary_row list" where
  "summary_loop df summary_data [] = Inr summary_data"
| "summary_loop df summary_data (country # rest) =
     (case summary_row_of df country of
        Inl e \<Rightarrow> Inl e
      | Inr row \<Rightarrow> summary_loop df (summary_data @ [row]) rest)"

text \<open>
  The frame built from an empty list of rows has no columns, and \<open>df['Country']\<close> raises
  KeyError on it.
\<close>

definition create_summary_by_country :: "processed list \<Rightarrow> error + summary_row list" where
  "create_summary_by_country df =
     (if df = [] then Inl (KeyError ''Country'')
      else
        (let countries = unique (map Country df)
         in summary_loop df [] (sort countries)))"

text \<open>
  A row of the detailed table whose twelve monthly scores and yearly average all equal
  \<open>avg\<close>, a float.
\<close>

definition sample_row :: "string \<Rightarrow> string \<Rightarrow> string \<Rightarrow> real \<Rightarrow> processed" where
  "sample_row c i h avg =
     (let v = PyFloat (Num avg)
      in \<lparr> Country = c, ISO3 = i, Population_Thousands = Some (PyInt 100), LCC = None,
           Vulnerability = Some (PyInt 0), Hazard_Type = h,
           January = v, February = v, March = v, April = v, May = v, June = v,
           July = v, August = v, September = v, October = v, November = v,
           December = v, Yearly_Sum = PyFloat (Num (12 * avg)), Yearly_Average = v,
           Peak_Month_Score = v,
           GO_Category_Num = fst (categorize_go_platform (Some (Num avg))),
           GO_Category = snd (categorize_go_platform (Some (Num avg))),
           INFORM_Category = categorize_inform (Some (Num avg)),
           Peak_GO_Num = fst (categorize_go_platform (Some (Num avg))),
           Peak_GO_Category = snd (categorize_go_platform (Some (Num avg))),
           Peak_INFORM_Category = categorize_inform (Some (Num avg)) \<rparr>)"

definition sample_df :: "processed list" where
  "sample_df = [sample_row ''Mali'' ''MLI'' ''Flood'' 3.25,
                sample_row ''Chad'' ''TCD'' ''Drought'' 5.83,
                sample_row ''Mali'' ''XXX'' ''Wildfire'' 1]"

text \<open>One country with averages 2.26, 2.02 and 1.72 for the three hazards.\<close>

definition sample_df_three :: "processed list" where
  "sample_df_three = [sample_row ''Togo'' ''TGO'' ''Drought'' 2.26,
                      sample_row ''Togo'' ''TGO'' ''Flood'' 2.02,
                      sample_row ''Togo'' ''TGO'' ''Wildfire'' 1.72]"

section \<open>Fetching from the API\<close>

text \<open>\<open>str(n)\<close> for an integer, as an f-string formats it.\<close>

fun str_of_nat :: "nat \<Rightarrow> string" where
  "str_of_nat n =
     (if n < 10 then [''0123456789'' ! n]
      else str_of_nat (n div 10) @ [''0123456789'' ! (n mod 10)])"

declare str_of_nat.simps [simp del]

definition str_of_int :: "int \<Rightarrow> string" where
  "str_of_int i = (if i < 0 then ''-'' @ str_of_nat (nat (- i)) else str_of_nat (nat i))"

text \<open>
  The body of a response as \<open>response.json()\<close> decodes it: a JSON object in which the keys
  \<open>count\<close> and \<open>results\<close> may each be absent. A response whose body is not JSON has no
  decoded body, and \<open>response.json()\<close> raises on it.
\<close>

record payload =
  json_count :: "int option"
  json_results :: "risk_record list option"

record response =
  status_code :: int
  json :: "payload option"

text \<open>
  What lies outside the program: the remote side answers a GET on a URL with a response,
  or the request itself fails with an exception. The requests sent and the lines printed
  are recorded in the order they happen.
\<close>

type_synonym server = "string \<Rightarrow> error + response"

record world =
  requests_sent :: "string list"
  stdout :: "string list"

definition requests_get :: "server \<Rightarrow> string \<Rightarrow> world \<Rightarrow> (error + response) \<times> world" where
  "requests_get srv url w = (srv url, w\<lparr>requests_sent := requests_sent w @ [url]\<rparr>)"

definition print :: "string \<Rightarrow> world \<Rightarrow> world" where
  "print line w = w\<lparr>stdout := stdout w @ [line]\<rparr>"

definition risk_score_url :: "int \<Rightarrow> int \<Rightarrow> string" where
  "risk_score_url region limit =
     ''https://go-risk.northeurope.cloudapp.azure.com/api/v1/risk-score/?region=''
       @ str_of_int region @ ''&limit='' @ str_of_int limit"

text \<open>An argument the caller leaves out is \<open>None\<close> and takes the default of the signature.\<close>

definition fetch_risk_scores ::
    "server \<Rightarrow> int option \<Rightarrow> int option \<Rightarrow> world \<Rightarrow> (error + risk_record list) \<times> world" where
  "fetch_risk_scores srv region limit w =
     (let region = (case region of None \<Rightarrow> 0 | Some r \<Rightarrow> r);
          limit = (case limit of None \<Rightarrow> 9999 | Some l \<Rightarrow> l);
          url = risk_score_url region limit;
          w = print (''Fetching data from: '' @ url) w;
          (got, w) = requests_get srv url w
      in case got of
           Inl e \<Rightarrow> (Inl e, w)
         | Inr response \<Rightarrow>
             if status_code response \<noteq> 200
             then (Inl (ApiRequestFailed (status_code response)), w)
             else (case json response of
                     None \<Rightarrow> (Inl JSONDecodeError, w)
                   | Some data \<Rightarrow>
                       (case json_count data of
                          None \<Rightarrow> (Inl (KeyError ''count''), w)
                        | Some n \<Rightarrow>
                            (let w = print (''Successfully fetched '' @ str_of_int n
                                              @ '' records'') w
                             in case json_results data of
                                  None \<Rightarrow> (Inl (KeyError ''results''), w)
                                | Some rs \<Rightarrow> (Inr rs, w)))))"

text \<open>Sample servers: one answers 200 with a page that is not JSON, one answers 503,
  one answers 200 with a well-formed body.\<close>

definition html_server :: server where
  "html_server url = Inr \<lparr> status_code = 200, json = None \<rparr>"

definition busy_server :: server where
  "busy_server url = Inr \<lparr> status_code = 503, json = None \<rparr>"

definition good_server :: server where
  "good_server url =
     Inr \<lparr> status_code = 200,
           json = Some \<lparr> json_count = Some 1,
                         json_results =
                           Some [sample_record ''Mali'' ''mli'' ''Flood'' (Val 4) Missing] \<rparr> \<rparr>"

definition empty_world :: world where
  "empty_world = \<lparr> requests_sent = [], stdout = [] \<rparr>"

section \<open>Population-normalised scores\<close>

text \<open>
  A row of the \<open>Country_Summary\<close> sheet as \<open>pd.read_excel\<close> returns it, with the columns
  the function reads. An empty cell is NaN in a numeric column and \<open>None\<close> in a text
  column. The columns that the summary row type already names carry the suffix \<open>_xl\<close>.
\<close>

record sheet_row =
  ISO3_xl :: "string option"
  Population_Thousands_xl :: pynum
  Drought_Avg :: pynum
  Flood_Avg :: pynum
  Overall_Avg_xl :: pynum

record viz_row = sheet_row +
  Pop_Sqrt :: pynum
  Drought_Norm :: pynum
  Flood_Norm :: pynum
  Overall_Norm :: pynum

text \<open>The four column assignments, which work row by row, on one row.\<close>

definition add_norm_columns :: "sheet_row \<Rightarrow> viz_row" where
  "add_norm_columns r =
     (let pop_sqrt = fsqrt (as_double (Population_Thousands_xl r))
      in sheet_row.extend r
           (viz_row.fields pop_sqrt
              (np_round (fdiv (as_double (Drought_Avg r)) pop_sqrt) 4)
              (np_round (fdiv (as_double (Flood_Avg r)) pop_sqrt) 4)
              (np_round (fdiv (as_double (Overall_Avg_xl r)) pop_sqrt) 4)))"

text \<open>\<open>summary_df\<close> is the sheet just read; reading the file is not modelled.\<close>

definition load_and_normalize_data :: "sheet_row list \<Rightarrow> viz_row list" where
  "load_and_normalize_data summary_df =
     (let viz_df = map add_norm_columns summary_df
      in [v \<leftarrow> viz_df. ISO3_xl v \<noteq> None \<and> ISO3_xl v \<noteq> Some ''''])"

definition sample_sheet :: "sheet_row list" where
  "sample_sheet =
     [\<lparr> ISO3_xl = Some ''KEN'', Population_Thousands_xl = Num 4, Drought_Avg = Num 0.0003,
        Flood_Avg = NaN, Overall_Avg_xl = Num 2.00005 \<rparr>,
      \<lparr> ISO3_xl = None, Population_Thousands_xl = Num 9, Drought_Avg = Num 3,
        Flood_Avg = Num 1, Overall_Avg_xl = Num 2 \<rparr>,
      \<lparr> ISO3_xl = Some '''', Population_Thousands_xl = Num 9, Drought_Avg = Num 3,
        Flood_Avg = Num 1, Overall_Avg_xl = Num 2 \<rparr>,
      \<lparr> ISO3_xl = Some ''MLI'', Population_Thousands_xl = Num 64, Drought_Avg = Num 0.17,
        Flood_Avg = Num 1, Overall_Avg_xl = Num 0 \<rparr>]"

section \<open>The pipeline steps on Python objects\<close>

text \<open>
  Python passes references: the argument of \<open>process_risk_data\<close> is a list object holding
  references to dictionaries, and a function can change the objects it is handed. To say
  that a step leaves its input alone, the objects live in a store. An address is a
  position in the store; a new object is placed at the end. A DataFrame holds its own
  copy of the values of its rows.
\<close>

type_synonym addr = nat

datatype pyobj =
    ApiRecord risk_record
  | DetailRow processed
  | SummaryRow summary_row
  | PyList "addr list"
  | DetailFrame "processed list"
  | SummaryFrame "summary_row list"

type_synonym store = "pyobj list"

definition lookup :: "store \<Rightarrow> addr \<Rightarrow> pyobj option" where
  "lookup h a = (if a < length h then Some (h ! a) else None)"

definition alloc :: "pyobj \<Rightarrow> store \<Rightarrow> addr \<times> store" where
  "alloc obj h = (length h, h @ [obj])"

text \<open>\<open>l.append(x)\<close> changes the list object at \<open>l\<close> in place.\<close>

definition list_append :: "addr \<Rightarrow> addr \<Rightarrow> store \<Rightarrow> store" where
  "list_append l x h =
     (case lookup h l of Some (PyList xs) \<Rightarrow> h[l := PyList (xs @ [x])] | _ \<Rightarrow> h)"

definition deref_api :: "store \<Rightarrow> addr \<Rightarrow> risk_record option" where
  "deref_api h a = (case lookup h a of Some (ApiRecord r) \<Rightarrow> Some r | _ \<Rightarrow> None)"

definition deref_row :: "store \<Rightarrow> addr \<Rightarrow> processed option" where
  "deref_row h a = (case lookup h a of Some (DetailRow r) \<Rightarrow> Some r | _ \<Rightarrow> None)"

definition deref_summary :: "store \<Rightarrow> addr \<Rightarrow> summary_row option" where
  "deref_summary h a = (case lookup h a of Some (SummaryRow r) \<Rightarrow> Some r | _ \<Rightarrow> None)"

text \<open>The values a list object stands for, when all its elements are of the one kind.\<close>

definition api_records :: "store \<Rightarrow> addr \<Rightarrow> risk_record list option" where
  "api_records h l =
     (case lookup h l of Some (PyList as) \<Rightarrow> those (map (deref_api h) as) | _ \<Rightarrow> None)"

definition detail_rows :: "store \<Rightarrow> addr \<Rightarrow> processed list option" where
  "detail_rows h l =
     (case lookup h l of Some (PyList as) \<Rightarrow> those (map (deref_row h) as) | _ \<Rightarrow> None)"

definition summary_rows :: "store \<Rightarrow> addr \<Rightarrow> summary_row list option" where
  "summary_rows h l =
     (case lookup h l of Some (PyList as) \<Rightarrow> those (map (deref_summary h) as) | _ \<Rightarrow> None)"

definition detail_frame :: "store \<Rightarrow> addr \<Rightarrow> processed list option" where
  "detail_frame h a = (case lookup h a of Some (DetailFrame rows) \<Rightarrow> Some rows | _ \<Rightarrow> None)"

definition summary_frame :: "store \<Rightarrow> addr \<Rightarrow> summary_row list option" where
  "summary_frame h a = (case lookup h a of Some (SummaryFrame rows) \<Rightarrow> Some rows | _ \<Rightarrow> None)"

text \<open>
  \<open>process_risk_data\<close> on objects: it makes the list \<open>processed_data\<close>, and for each
  record of \<open>results\<close> in turn reads the record, makes the row dictionary and appends it.
  An element that is not a record dictionary fails on the first key access.
\<close>

fun process_loop_st :: "addr \<Rightarrow> addr list \<Rightarrow> store \<Rightarrow> (error + addr) \<times> store" where
  "process_loop_st processed_data [] h = (Inr processed_data, h)"
| "process_loop_st processed_data (a # rest) h =
     (case deref_api h a of
        None \<Rightarrow> (Inl TypeError, h)
      | Some rec \<Rightarrow>
          (case process_record rec of
             Inl e \<Rightarrow> (Inl e, h)
           | Inr row \<Rightarrow>
               (let (ra, h) = alloc (DetailRow row) h;
                    h = list_append processed_data ra h
                in process_loop_st processed_data rest h)))"

definition process_risk_data_st :: "addr \<Rightarrow> store \<Rightarrow> (error + addr) \<times> store" where
  "process_risk_data_st results h =
     (case lookup h results of
        Some (PyList recs) \<Rightarrow>
          (let (processed_data, h) = alloc (PyList []) h
           in process_loop_st processed_data recs h)
      | _ \<Rightarrow> (Inl TypeError, h))"

text \<open>
  \<open>create_summary_by_country\<close> on objects: every pass of the loop selects from the frame
  \<open>df\<close> as it is at that moment, makes the row dictionary and appends it to
  \<open>summary_data\<close>; the result is a new frame built from that list. The frames of the
  intermediate selections are not kept in the store.
\<close>

fun summary_loop_st :: "addr \<Rightarrow> addr \<Rightarrow> string list \<Rightarrow> store \<Rightarrow> (error + addr) \<times> store" where
  "summary_loop_st df summary_data [] h = (Inr summary_data, h)"
| "summary_loop_st df summary_data (country # rest) h =
     (case detail_frame h df of
        None \<Rightarrow> (Inl TypeError, h)
      | Some rows \<Rightarrow>
          (case summary_row_of rows country of
             Inl e \<Rightarrow> (Inl e, h)
           | Inr row \<Rightarrow>
               (let (ra, h) = alloc (SummaryRow row) h;
                    h = list_append summary_data ra h
                in summary_loop_st df summary_data rest h)))"

definition create_summary_by_country_st :: "addr \<Rightarrow> store \<Rightarrow> (error + addr) \<times> store" where
  "create_summary_by_country_st df h =
     (case detail_frame h df of
        None \<Rightarrow> (Inl TypeError, h)
      | Some rows \<Rightarrow>
          (let (summary_data, h) = alloc (PyList []) h
           in if rows = [] then (Inl (KeyError ''Country''), h)
              else
                (let countries = unique (map Country rows)
                 in case summary_loop_st df summary_data (sort countries) h of
                      (Inl e, h) \<Rightarrow> (Inl e, h)
                    | (Inr summary_data, h) \<Rightarrow>
                        (case summary_rows h summary_data of
                           None \<Rightarrow> (Inl TypeError, h)
                         | Some srows \<Rightarrow>
                             (let (out, h) = alloc (SummaryFrame srows) h
                              in (Inr out, h))))))"

text \<open>What a call hands back to its caller, as values: the exception, or the rows.\<close>

definition returned_rows :: "(error + addr) \<times> store \<Rightarrow> error + processed list option" where
  "returned_rows out = (case fst out of Inl e \<Rightarrow> Inl e | Inr p \<Rightarrow> Inr (detail_rows (snd out) p))"

definition returned_frame :: "(error + addr) \<times> store \<Rightarrow> error + summary_row list option" where
  "returned_frame out =
     (case fst out of Inl e \<Rightarrow> Inl e | Inr p \<Rightarrow> Inr (summary_frame (snd out) p))"

text \<open>A store holding two API records, a list of references to them, and a frame.\<close>

definition sample_store :: store where
  "sample_store =
     [ApiRecord (sample_record ''Mali'' ''mli'' ''Flood'' (Val 4) Missing),
      PyList [0, 3, 0],
      DetailFrame sample_df,
      ApiRecord (sample_record ''Chad'' ''tcd'' ''Drought'' (Val 6) (Val 70))]"

section \<open>Classification: the threshold table\<close>

text \<open>
  Claim C1. For a numeric score on the documented 0 to 10 scale both functions follow the
  threshold table: below 2.0 is Very Low (1), from 2.0 up to 3.5 is Low (2), from 3.5 up
  to 5.0 is Medium (3), from 5.0 up to 6.5 is High (4), and from 6.5 to 10 is Very High
  (5). Each boundary point 2.0, 3.5, 5.0, 6.5 goes to the upper of its two tiers.
\<close>

theorem categorize_threshold_table:
  "(0 \<le> s \<and> s < 2.0 \<longrightarrow>
      categorize_go_platform (Some (Num s)) = (1, ''Very Low'') \<and>
      categorize_inform (Some (Num s)) = ''Very Low'') \<and>
   (2.0 \<le> s \<and> s < 3.5 \<longrightarrow>
      categorize_go_platform (Some (Num s)) = (2, ''Low'') \<and>
      categorize_inform (Some (Num s)) = ''Low'') \<and>
   (3.5 \<le> s \<and> s < 5.0 \<longrightarrow>
      categorize_go_platform (Some (Num s)) = (3, ''Medium'') \<and>
      categorize_inform (Some (Num s)) = ''Medium'') \<and>
   (5.0 \<le> s \<and> s < 6.5 \<longrightarrow>
      categorize_go_platform (Some (Num s)) = (4, ''High'') \<and>
      categorize_inform (Some (Num s)) = ''High'') \<and>
   (6.5 \<le> s \<and> s \<le> 10 \<longrightarrow>
      categorize_go_platform (Some (Num s)) = (5, ''Very High'') \<and>
      categorize_inform (Some (Num s)) = ''Very High'')"
  by simp

theorem categorize_threshold_table_witness:
  "categorize_go_platform (Some (Num 1)) = (1, ''Very Low'') \<and>
   categorize_inform (Some (Num 1)) = ''Very Low'' \<and>
   categorize_go_platform (Some (Num 2)) = (2, ''Low'') \<and>
   categorize_inform (Some (Num 2)) = ''Low'' \<and>
   categorize_go_platform (Some (Num 3.5)) = (3, ''Medium'') \<and>
   categorize_inform (Some (Num 3.5)) = ''Medium'' \<and>
   categorize_go_platform (Some (Num 5)) = (4, ''High'') \<and>
   categorize_inform (Some (Num 5)) = ''High'' \<and>
   categorize_go_platform (Some (Num 6.5)) = (5, ''Very High'') \<and>
   categorize_inform (Some (Num 6.5)) = ''Very High''"
  using categorize_threshold_table [of 1] categorize_threshold_table [of 2]
    categorize_threshold_table [of "3.5"] categorize_threshold_table [of 5]
    categorize_threshold_table [of "6.5"]
  by simp

text \<open>
  Claim C3. On every optional score, \<open>None\<close>, NaN and the infinities included, the INFORM
  label is the name component of the GO Platform pair.
\<close>

theorem categorize_inform_eq_go_name:
  "categorize_inform s = snd (categorize_go_platform s)"
  by (cases s) simp_all

text \<open>
  Claim C9. Both functions return a value on every optional score. \<open>None\<close> and NaN give
  No Data, with number 0 in the GO scheme; every negative score gives Very Low; every
  score of 6.5 or more gives Very High, whether or not it exceeds 10.
\<close>

theorem categorize_total_edges:
  "categorize_go_platform None = (0, ''No Data'') \<and>
   categorize_go_platform (Some NaN) = (0, ''No Data'') \<and>
   categorize_inform None = ''No Data'' \<and>
   categorize_inform (Some NaN) = ''No Data'' \<and>
   (s < 0 \<longrightarrow> categorize_go_platform (Some (Num s)) = (1, ''Very Low'') \<and>
              categorize_inform (Some (Num s)) = ''Very Low'') \<and>
   categorize_go_platform (Some NegInf) = (1, ''Very Low'') \<and>
   categorize_inform (Some NegInf) = ''Very Low'' \<and>
   (6.5 \<le> s \<longrightarrow> categorize_go_platform (Some (Num s)) = (5, ''Very High'') \<and>
                categorize_inform (Some (Num s)) = ''Very High'') \<and>
   categorize_go_platform (Some PosInf) = (5, ''Very High'') \<and>
   categorize_inform (Some PosInf) = ''Very High''"
  by simp

theorem categorize_total_edges_witness:
  "categorize_go_platform (Some (Num (- 3))) = (1, ''Very Low'') \<and>
   categorize_inform (Some (Num (- 3))) = ''Very Low'' \<and>
   categorize_go_platform (Some (Num 250)) = (5, ''Very High'') \<and>
   categorize_inform (Some (Num 250)) = ''Very High''"
  using categorize_total_edges [of "- 3"] categorize_total_edges [of 250]
  by simp

section \<open>Processing: the yearly average\<close>

lemma fl_zero: "fl 0 = Num 0"
  by (simp add: fl_def)

lemma fl_twelve: "fl 12 = Num 12"
  by code_simp

lemma round_half_even_zero: "round_half_even 0 = 0"
  by (simp add: round_half_even_def)

lemma not_truthy: "\<not> truthy v \<Longrightarrow> v = PyInt 0 \<or> v = PyFloat (Num 0)"
  by (cases v rule: truthy.cases) simp_all

lemma float_of_int_error: "float_of_int i = Inl e \<Longrightarrow> e = OverflowError"
  by (simp add: float_of_int_def split: pynum.splits)

lemma py_add_error: "py_add a b = Inl e \<Longrightarrow> e = OverflowError"
  by (cases a; cases b) (auto split: sum.splits dest: float_of_int_error)

lemma sum_from_error: "sum_from acc xs = Inl e \<Longrightarrow> e = OverflowError"
  by (induction xs arbitrary: acc) (auto split: sum.splits dest: py_add_error)

lemma truediv_twelve_error: "py_truediv v (PyInt 12) = Inl e \<Longrightarrow> e = OverflowError"
  by (cases v)
     (auto simp: float_of_int_def fl_twelve float_truediv_def split: pynum.splits if_splits)

lemma truediv_zero:
  "\<not> truthy v \<Longrightarrow> \<exists>q. py_truediv v (PyInt 12) = Inr q \<and> num_of q = Num 0"
  by (auto dest!: not_truthy simp: fl_zero float_of_int_def fl_twelve float_truediv_def)

lemma monthly_scores_of_months:
  "monthly_scores_of r =
     map get_or_zero [january r, february r, march r, april r, may r, june r,
                      july r, august r, september r, october r, november r, december r]"
  by (simp add: monthly_scores_of_def months_def)

lemma process_loop_rows:
  "process_loop acc rs = Inr out \<Longrightarrow>
     \<exists>rows. out = acc @ rows \<and> list_all2 (\<lambda>r p. process_record r = Inr p) rs rows"
proof (induction rs arbitrary: acc out)
  case Nil
  then show ?case by simp
next
  case (Cons r rs)
  then obtain row where row: "process_record r = Inr row"
    and rest: "process_loop (acc @ [row]) rs = Inr out"
    by (auto split: sum.splits)
  from Cons.IH [OF rest] obtain rows where
    "out = (acc @ [row]) @ rows" "list_all2 (\<lambda>r p. process_record r = Inr p) rs rows"
    by blast
  with row have "out = acc @ (row # rows) \<and>
      list_all2 (\<lambda>r p. process_record r = Inr p) (r # rs) (row # rows)"
    by simp
  then show ?case by blast
qed

text \<open>What a returned row says about the sum, the average and the categories.\<close>

lemma process_record_row:
  assumes "process_record r = Inr p"
  shows "\<exists>ys avg. yearly_sum_of r = Inr (Some ys) \<and> yearly_avg_of (Some ys) = Inr avg \<and>
     Yearly_Sum p = py_round_val ys 2 \<and>
     Yearly_Average p = py_round_val avg 2 \<and>
     (GO_Category_Num p, GO_Category p) = categorize_go_platform (Some (num_of avg)) \<and>
     INFORM_Category p = categorize_inform (Some (num_of avg))"
proof (cases "yearly_sum_of r")
  case (Inl e)
  with assms show ?thesis by (simp add: process_record_def Let_def)
next
  case (Inr got)
  show ?thesis
  proof (cases "yearly_avg_of got")
    case (Inl e)
    with assms Inr show ?thesis by (simp add: process_record_def Let_def)
  next
    case avg: (Inr avg)
    show ?thesis
    proof (cases got)
      case None
      with assms Inr avg show ?thesis
        by (simp add: process_record_def Let_def split: prod.splits
            del: categorize_go_platform.simps categorize_inform.simps)
    next
      case (Some ys)
      with assms Inr avg show ?thesis
        by (auto simp: process_record_def Let_def split: prod.splits
            simp del: categorize_go_platform.simps categorize_inform.simps)
    qed
  qed
qed

lemma yearly_sum_of_field:
  assumes "yearly_sum_of r = Inr (Some ys)"
  shows "case yearly_sum r of
           Val v \<Rightarrow> ys = json_number v
         | Missing \<Rightarrow>
             py_sum (map get_or_zero
               [january r, february r, march r, april r, may r, june r,
                july r, august r, september r, october r, november r, december r]) = Inr ys
         | Null \<Rightarrow> False"
  using assms
  by (cases "yearly_sum r")
     (auto simp: yearly_sum_of_def monthly_scores_of_months split: sum.splits)

lemma process_record_fields:
  assumes "process_record r = Inr p"
  shows "\<exists>ys q.
     (case yearly_sum r of
        Val v \<Rightarrow> ys = json_number v
      | Missing \<Rightarrow>
          py_sum (map get_or_zero
            [january r, february r, march r, april r, may r, june r,
             july r, august r, september r, october r, november r, december r]) = Inr ys
      | Null \<Rightarrow> False) \<and>
     py_truediv ys (PyInt 12) = Inr q \<and>
     num_of (Yearly_Average p) = num_of (py_round_val q 2) \<and>
     (GO_Category_Num p, GO_Category p) = categorize_go_platform (Some (num_of q)) \<and>
     INFORM_Category p = categorize_inform (Some (num_of q))"
proof -
  from process_record_row [OF assms] obtain ys avg where
    ys: "yearly_sum_of r = Inr (Some ys)" and avg: "yearly_avg_of (Some ys) = Inr avg"
    and row: "Yearly_Average p = py_round_val avg 2"
      "(GO_Category_Num p, GO_Category p) = categorize_go_platform (Some (num_of avg))"
      "INFORM_Category p = categorize_inform (Some (num_of avg))"
    by blast
  have "\<exists>q. py_truediv ys (PyInt 12) = Inr q \<and>
        num_of (py_round_val avg 2) = num_of (py_round_val q 2) \<and> num_of avg = num_of q"
    (is "\<exists>q. ?Q q")
  proof (cases "truthy ys")
    case True
    with avg show ?thesis by (simp add: yearly_avg_of_def)
  next
    case False
    with avg have zero: "avg = PyInt 0" by (simp add: yearly_avg_of_def)
    from truediv_zero [OF False] obtain q where
      q: "py_truediv ys (PyInt 12) = Inr q" "num_of q = Num 0" by blast
    then have "num_of (py_round_val q 2) = Num 0"
      by (cases q) (simp_all add: round_half_even_zero fl_zero)
    with q zero show ?thesis by simp
  qed
  then obtain q where q: "?Q q" ..
  with row have "py_truediv ys (PyInt 12) = Inr q \<and>
     num_of (Yearly_Average p) = num_of (py_round_val q 2) \<and>
     (GO_Category_Num p, GO_Category p) = categorize_go_platform (Some (num_of q)) \<and>
     INFORM_Category p = categorize_inform (Some (num_of q))"
    by (simp del: categorize_go_platform.simps categorize_inform.simps)
  with yearly_sum_of_field [OF ys] show ?thesis by blast
qed

lemma process_record_raises:
  assumes "process_record r = Inl e"
  shows "e = OverflowError \<or> (e = TypeError \<and> yearly_sum r = Null)"
proof (cases "yearly_sum_of r")
  case (Inl e')
  with assms have "e' = e" by (simp add: process_record_def Let_def)
  with Inl show ?thesis
    by (auto simp: yearly_sum_of_def py_sum_def split: sum.splits dest: sum_from_error)
next
  case (Inr got)
  show ?thesis
  proof (cases "yearly_avg_of got")
    case (Inl e')
    with assms Inr have "e' = e" by (simp add: process_record_def Let_def)
    with Inl show ?thesis
      by (auto simp: yearly_avg_of_def split: option.splits if_splits
            dest: truediv_twelve_error)
  next
    case avg: (Inr avg)
    show ?thesis
    proof (cases got)
      case None
      with Inr have "yearly_sum r = Null"
        by (cases "yearly_sum r") (auto simp: yearly_sum_of_def split: sum.splits)
      with assms Inr avg None show ?thesis
        by (simp add: process_record_def Let_def split: prod.splits
            del: categorize_go_platform.simps categorize_inform.simps)
    next
      case (Some ys)
      with assms Inr avg show ?thesis
        by (simp add: process_record_def Let_def split: prod.splits
            del: categorize_go_platform.simps categorize_inform.simps)
    qed
  qed
qed

text \<open>
  Claim C2. When \<open>process_risk_data\<close> returns, it has one row per record, in order, and
  for each record the \<open>Yearly_Average\<close> column is the record's yearly sum divided by 12 and
  rounded to two decimals, the division and the rounding being those of Python on floats.
  The yearly sum is the number under the API's \<open>yearly_sum\<close> key or, when that key is
  absent, the sum of the twelve monthly scores, an absent, \<open>null\<close> or zero month counting
  as 0. The quotient itself, before rounding, is what both classification functions
  receive. (For a yearly sum of zero the code takes the integer 0 as the average, which is
  the same number as the quotient.) By \<open>process_record_raises\<close> the function returns
  unless a record holds \<open>null\<close> under \<open>yearly_sum\<close> or an integer too large for a float.
\<close>

theorem process_yearly_average:
  assumes "process_risk_data results = Inr out" and "i < length results"
  shows "length out = length results \<and>
     (\<exists>ys q.
        (case yearly_sum (results ! i) of
           Val v \<Rightarrow> ys = json_number v
         | Missing \<Rightarrow>
             py_sum (map get_or_zero
               [january (results ! i), february (results ! i), march (results ! i),
                april (results ! i), may (results ! i), june (results ! i),
                july (results ! i), august (results ! i), september (results ! i),
                october (results ! i), november (results ! i), december (results ! i)])
             = Inr ys
         | Null \<Rightarrow> False) \<and>
        py_truediv ys (PyInt 12) = Inr q \<and>
        num_of (Yearly_Average (out ! i)) = num_of (py_round_val q 2) \<and>
        (GO_Category_Num (out ! i), GO_Category (out ! i)) =
           categorize_go_platform (Some (num_of q)) \<and>
        INFORM_Category (out ! i) = categorize_inform (Some (num_of q)))"
proof -
  from assms(1) have "list_all2 (\<lambda>r p. process_record r = Inr p) results out"
    using process_loop_rows [of "[]" results out] by (simp add: process_risk_data_def)
  then have len: "length out = length results"
    and row: "process_record (results ! i) = Inr (out ! i)"
    using assms(2) by (auto dest: list_all2_lengthD list_all2_nthD)
  from len process_record_fields [OF row] show ?thesis by simp
qed


text \<open>The exceptions of the loop body are live: an integer beyond the floats raises.\<close>

lemma bit_length_nonneg: "0 \<le> bit_length n"
  by (induction n rule: bit_length.induct) (simp add: bit_length.simps)

lemma bit_length_ge: "2 ^ k \<le> n \<Longrightarrow> int k + 1 \<le> bit_length n"
proof (induction k arbitrary: n)
  case 0
  then have "0 < n" by simp
  with bit_length_nonneg [of "n div 2"] show ?case
    by (subst bit_length.simps) simp
next
  case (Suc k)
  then have pos: "0 < n" by (smt (verit) zero_less_power)
  from Suc.prems have "2 ^ k \<le> n div 2" by simp
  from Suc.IH [OF this] pos show ?case
    by (subst bit_length.simps) simp
qed

text \<open>A number of \<open>2 ^ 1024\<close> or more is beyond every float.\<close>

lemma fl_overflow:
  assumes "2 ^ 1024 \<le> x"
  shows "fl x = PosInf"
proof -
  have big: "(1::real) \<le> 2 ^ 1024" by simp
  with assms have x: "1 \<le> x" "0 < x" "x \<noteq> 0" by linarith+
  from assms have "(2::int) ^ 1024 \<le> \<lfloor>x\<rfloor>" by (simp add: le_floor_iff)
  from bit_length_ge [OF this] have "1024 \<le> exponent x"
    using x by (simp add: exponent_def)
  then have e: "max (exponent x) (- 1022) = exponent x" "1023 < exponent x" by simp_all
  from x have "\<bar>x\<bar> = x" by simp
  with x e show ?thesis by (simp add: fl_def Let_def)
qed

lemma float_of_int_overflow: "2 ^ 1024 \<le> i \<Longrightarrow> float_of_int i = Inl OverflowError"
proof -
  assume "2 ^ 1024 \<le> i"
  then have "(2::real) ^ 1024 \<le> of_int i"
    by (metis of_int_le_iff of_int_numeral of_int_power)
  from fl_overflow [OF this] show ?thesis by (simp add: float_of_int_def)
qed

lemma truediv_overflow:
  assumes "12 * 2 ^ 1024 \<le> i"
  shows "py_truediv (PyInt i) (PyInt 12) = Inl OverflowError"
proof -
  from assms have "(12::real) * 2 ^ 1024 \<le> of_int i"
    by (metis of_int_le_iff of_int_numeral of_int_power of_int_mult)
  then have "(2::real) ^ 1024 \<le> of_int i / 12" by simp
  from fl_overflow [OF this] show ?thesis by simp
qed


lemma process_record_overflow:
  assumes "yearly_sum r = Val (PyInt i)" and "12 * 2 ^ 1024 \<le> i"
    and "py_sum (monthly_scores_of r) = Inr s"
  shows "process_record r = Inl OverflowError"
proof -
  from assms(1,3) have "yearly_sum_of r = Inr (Some (PyInt i))"
    by (simp add: yearly_sum_of_def)
  moreover from assms(2) have "i \<noteq> 0" by auto
  with truediv_overflow [OF assms(2)] have "yearly_avg_of (Some (PyInt i)) = Inl OverflowError"
    by (simp add: yearly_avg_of_def)
  ultimately show ?thesis by (simp add: process_record_def Let_def)
qed

text \<open>
  The rounding is that of the float: a yearly sum of 44.7 gives 3.73, and a NaN stays.
\<close>

lemma yearly_average_examples:
  "map_sum id (\<lambda>q. py_round_val q 2) (py_truediv (json_number (PyFloat (Num 44.7))) (PyInt 12))
     = Inr (PyFloat (fl 3.73))"
  "map_sum id (\<lambda>q. py_round_val q 2) (py_truediv (json_number (PyFloat NaN)) (PyInt 12))
     = Inr (PyFloat NaN)"
  by code_simp+

text \<open>The other columns of a row, on the sample record, and \<open>max\<close> with a NaN.\<close>

lemma process_record_example:
  "map_sum id
     (\<lambda>p. (Country p, ISO3 p, Hazard_Type p, January p, March p, Yearly_Sum p,
           Peak_Month_Score p, Peak_GO_Num p, Peak_INFORM_Category p,
           LCC p, Population_Thousands p))
     (process_record sample_fallback)
   = Inr (''Mali'', ''MLI'', ''Flood'', PyInt 0, PyFloat (fl 2.4), PyFloat (Num 24),
          PyFloat (fl 2.4), 2, ''Low'', Some (PyInt 0), Some (PyInt 0))"
  by code_simp

lemma py_max_examples:
  "py_max [PyInt 0, PyFloat (Num 2.5), PyFloat NaN, PyInt 3, PyFloat (Num 3)] = PyInt 3"
  "py_max [PyFloat NaN, PyInt 1, PyInt 2] = PyFloat NaN"
  by code_simp+

lemma process_record_returns:
  assumes "yearly_sum_of r = Inr (Some ys)" and "yearly_avg_of (Some ys) = Inr avg"
  shows "\<exists>p. process_record r = Inr p"
  using assms
  by (simp add: process_record_def Let_def split: prod.splits
        del: categorize_go_platform.simps categorize_inform.simps)

lemma process_loop_returns:
  "(\<exists>out. process_loop acc rs = Inr out) \<longleftrightarrow> (\<forall>r \<in> set rs. \<exists>p. process_record r = Inr p)"
proof (induction rs arbitrary: acc)
  case Nil
  show ?case by simp
next
  case (Cons r rs)
  show ?case
  proof (cases "process_record r")
    case (Inl e)
    then show ?thesis by simp
  next
    case (Inr row)
    with Cons.IH [of "acc @ [row]"] show ?thesis by simp
  qed
qed

lemma process_risk_data_returns:
  "(\<exists>out. process_risk_data results = Inr out) \<longleftrightarrow>
   (\<forall>r \<in> set results. \<exists>p. process_record r = Inr p)"
  unfolding process_risk_data_def by (rule process_loop_returns)

lemma sample_fallback_sum:
  "py_sum (map get_or_zero
     [january sample_fallback, february sample_fallback, march sample_fallback,
      april sample_fallback, may sample_fallback, june sample_fallback,
      july sample_fallback, august sample_fallback, september sample_fallback,
      october sample_fallback, november sample_fallback, december sample_fallback])
   = Inr (PyFloat (Num (6755399441055743 / 281474976710656)))"
  by code_simp

lemma sample_fallback_avg:
  "py_truediv (PyFloat (Num (6755399441055743 / 281474976710656))) (PyInt 12)
   = Inr (PyFloat (Num (9007199254740991 / 4503599627370496)))"
  by code_simp

lemma sample_fallback_round:
  "py_round_val (PyFloat (Num (9007199254740991 / 4503599627370496))) 2 = PyFloat (Num 2)"
  by code_simp

lemma sample_small_avg:
  "py_truediv (json_number (PyFloat (Num 0.06))) (PyInt 12)
   = Inr (PyFloat (Num (5764607523034235 / 1152921504606846976)))"
  by code_simp

lemma sample_small_truthy: "truthy (json_number (PyFloat (Num 0.06)))"
  by code_simp

lemma sample_small_round:
  "py_round_val (PyFloat (Num (5764607523034235 / 1152921504606846976))) 2
   = PyFloat (fl 0.01)"
  by code_simp

lemma sample_fallback_returns: "\<exists>p. process_record sample_fallback = Inr p"
proof -
  have "yearly_sum sample_fallback = Missing"
    by (simp add: sample_fallback_def monthly_record_def)
  then have "yearly_sum_of sample_fallback =
      Inr (Some (PyFloat (Num (6755399441055743 / 281474976710656))))"
    unfolding yearly_sum_of_def monthly_scores_of_months sample_fallback_sum by simp
  moreover have "yearly_avg_of (Some (PyFloat (Num (6755399441055743 / 281474976710656))))
      = Inr (PyFloat (Num (9007199254740991 / 4503599627370496)))"
    unfolding yearly_avg_of_def using sample_fallback_avg by simp
  ultimately show ?thesis by (rule process_record_returns)
qed

lemma sample_small_returns: "\<exists>p. process_record sample_small = Inr p"
proof -
  have sum: "py_sum (monthly_scores_of sample_small) = Inr (PyInt 0)"
    by (simp add: monthly_scores_of_months sample_small_def monthly_record_def py_sum_def)
  have "yearly_sum sample_small = Val (PyFloat (Num 0.06))"
    by (simp add: sample_small_def monthly_record_def)
  with sum have "yearly_sum_of sample_small = Inr (Some (json_number (PyFloat (Num 0.06))))"
    by (simp add: yearly_sum_of_def)
  moreover have "yearly_avg_of (Some (json_number (PyFloat (Num 0.06))))
      = Inr (PyFloat (Num (5764607523034235 / 1152921504606846976)))"
    unfolding yearly_avg_of_def option.case using sample_small_truthy sample_small_avg
    by (simp del: json_number.simps)
  ultimately show ?thesis by (rule process_record_returns)
qed

theorem process_yearly_average_witness:
  "\<exists>out. process_risk_data [sample_fallback, sample_small] = Inr out \<and>
     length out = 2 \<and>
     num_of (Yearly_Average (out ! 0)) = Num 2 \<and>
     GO_Category_Num (out ! 0) = 1 \<and> GO_Category (out ! 0) = ''Very Low'' \<and>
     INFORM_Category (out ! 0) = ''Very Low'' \<and>
     num_of (Yearly_Average (out ! 1)) = fl 0.01 \<and>
     GO_Category (out ! 1) = ''Very Low''"
proof -
  let ?rs = "[sample_fallback, sample_small]"
  from sample_fallback_returns sample_small_returns
  obtain out where run: "process_risk_data ?rs = Inr out"
    using process_risk_data_returns [of ?rs] by auto
  have i0: "(0::nat) < length ?rs" and i1: "(1::nat) < length ?rs" by simp_all
  have missing: "yearly_sum sample_fallback = Missing"
    by (simp add: sample_fallback_def monthly_record_def)
  have given: "yearly_sum sample_small = Val (PyFloat (Num 0.06))"
    by (simp add: sample_small_def monthly_record_def)
  have at0: "?rs ! 0 = sample_fallback" and at1: "?rs ! 1 = sample_small" by simp_all
  from process_yearly_average [OF run i0] obtain ys q where
    len: "length out = length ?rs"
    and s: "py_sum (map get_or_zero
     [january sample_fallback, february sample_fallback, march sample_fallback,
      april sample_fallback, may sample_fallback, june sample_fallback,
      july sample_fallback, august sample_fallback, september sample_fallback,
      october sample_fallback, november sample_fallback, december sample_fallback])
      = Inr ys"
    and d: "py_truediv ys (PyInt 12) = Inr q"
    and row0: "num_of (Yearly_Average (out ! 0)) = num_of (py_round_val q 2)"
      "(GO_Category_Num (out ! 0), GO_Category (out ! 0)) =
         categorize_go_platform (Some (num_of q))"
      "INFORM_Category (out ! 0) = categorize_inform (Some (num_of q))"
    unfolding at0 missing jfield.case by blast
  from s have ys: "ys = PyFloat (Num (6755399441055743 / 281474976710656))"
    unfolding sample_fallback_sum by simp
  from d have q: "q = PyFloat (Num (9007199254740991 / 4503599627370496))"
    unfolding ys sample_fallback_avg by simp
  from row0 have first: "num_of (Yearly_Average (out ! 0)) = Num 2 \<and>
     GO_Category_Num (out ! 0) = 1 \<and> GO_Category (out ! 0) = ''Very Low'' \<and>
     INFORM_Category (out ! 0) = ''Very Low''"
    unfolding q sample_fallback_round by simp
  from process_yearly_average [OF run i1] obtain ys' q' where
    g: "ys' = json_number (PyFloat (Num 0.06))"
    and d': "py_truediv ys' (PyInt 12) = Inr q'"
    and row1: "num_of (Yearly_Average (out ! 1)) = num_of (py_round_val q' 2)"
      "(GO_Category_Num (out ! 1), GO_Category (out ! 1)) =
         categorize_go_platform (Some (num_of q'))"
    unfolding at1 given jfield.case by blast
  from d' have q': "q' = PyFloat (Num (5764607523034235 / 1152921504606846976))"
    unfolding g sample_small_avg by simp
  from row1 have "num_of (Yearly_Average (out ! 1)) = fl 0.01 \<and>
     GO_Category (out ! 1) = ''Very Low''"
    unfolding q' sample_small_round by simp
  with run len first show ?thesis by auto
qed

section \<open>Filtering: exactly the included hazards\<close>

lemma count_list_filter:
  "count_list (filter P xs) x = (if P x then count_list xs x else 0)"
  by (induction xs) auto

text \<open>
  Claim C6. Called without \<open>hazard_types\<close>, the filter keeps exactly the records whose
  hazard is Drought, Flood or Wildfire: every kept record has such a hazard, every such
  record is kept as often as it occurs, and the kept records are in their input order.
\<close>

theorem filter_default_exact:
  "(\<forall>rec \<in> set (filter_by_hazard_type results None).
       hazard_type_display rec \<in> {''Drought'', ''Flood'', ''Wildfire''}) \<and>
   (\<forall>rec \<in> set results.
       hazard_type_display rec \<in> {''Drought'', ''Flood'', ''Wildfire''} \<longrightarrow>
       rec \<in> set (filter_by_hazard_type results None) \<and>
       count_list (filter_by_hazard_type results None) rec = count_list results rec) \<and>
   subseq (filter_by_hazard_type results None) results"
  by (simp add: filter_by_hazard_type_def INCLUDED_HAZARDS_def count_list_filter)

theorem filter_default_exact_witness:
  "(let f = sample_record ''Mali'' ''mli'' ''Flood'' (Val 1) Missing;
        c = sample_record ''Mali'' ''mli'' ''Cyclone'' (Val 1) Missing;
        w = sample_record ''Chad'' ''tcd'' ''Wildfire'' (Val 1) Missing
    in filter_by_hazard_type [f, c, w, f] None = [f, w, f] \<and>
       w \<in> set (filter_by_hazard_type [f, c, w, f] None) \<and>
       count_list (filter_by_hazard_type [f, c, w, f] None) f = 2 \<and>
       subseq (filter_by_hazard_type [f, c, w, f] None) [f, c, w, f])"
  using filter_default_exact
    [of "[sample_record ''Mali'' ''mli'' ''Flood'' (Val 1) Missing,
          sample_record ''Mali'' ''mli'' ''Cyclone'' (Val 1) Missing,
          sample_record ''Chad'' ''tcd'' ''Wildfire'' (Val 1) Missing,
          sample_record ''Mali'' ''mli'' ''Flood'' (Val 1) Missing]"]
  by (simp add: Let_def filter_by_hazard_type_def INCLUDED_HAZARDS_def sample_record_def)

section \<open>The country summary: rows, order and missing hazards\<close>

lemma summary_loop_rows:
  "summary_loop df acc cs = Inr out \<Longrightarrow>
     \<exists>rows. out = acc @ rows \<and> list_all2 (\<lambda>c row. summary_row_of df c = Inr row) cs rows"
proof (induction cs arbitrary: acc out)
  case Nil
  then show ?case by simp
next
  case (Cons c cs)
  then obtain row where row: "summary_row_of df c = Inr row"
    and rest: "summary_loop df (acc @ [row]) cs = Inr out"
    by (auto split: sum.splits)
  from Cons.IH [OF rest] obtain rows where
    "out = (acc @ [row]) @ rows" "list_all2 (\<lambda>c row. summary_row_of df c = Inr row) cs rows"
    by blast
  with row have "out = acc @ (row # rows) \<and>
      list_all2 (\<lambda>c row. summary_row_of df c = Inr row) (c # cs) (row # rows)"
    by simp
  then show ?case by blast
qed

lemma filter_first_find:
  "filter P xs = y # ys \<Longrightarrow> find P xs = Some y"
  by (induction xs) (auto split: if_splits)

lemma find_first_filter:
  "find P xs = Some y \<Longrightarrow> \<exists>ys. filter P xs = y # ys"
  by (induction xs) (auto split: if_splits)

lemma summary_row_of_returns:
  assumes "c \<in> set (map Country df)"
  shows "\<exists>row. summary_row_of df c = Inr row"
proof -
  from assms have "[r \<leftarrow> df. Country r = c] \<noteq> []"
    by (auto simp: filter_empty_conv)
  then obtain first rest where "[r \<leftarrow> df. Country r = c] = first # rest"
    by (cases "[r \<leftarrow> df. Country r = c]") auto
  then show ?thesis
    by (simp add: summary_row_of_def Let_def split: prod.splits
          del: categorize_go_platform.simps categorize_inform.simps)
qed

lemma summary_loop_returns:
  "set cs \<subseteq> set (map Country df) \<Longrightarrow> \<exists>out. summary_loop df acc cs = Inr out"
proof (induction cs arbitrary: acc)
  case Nil
  show ?case by simp
next
  case (Cons c cs)
  then have "c \<in> set (map Country df)" by simp
  from summary_row_of_returns [OF this] obtain row where "summary_row_of df c = Inr row" ..
  moreover from Cons have "\<exists>out. summary_loop df (acc @ [row]) cs = Inr out" by simp
  ultimately show ?case by simp
qed

lemma set_unique: "set (unique xs) = set xs"
  by (simp add: unique_def)

lemma distinct_unique: "distinct (unique xs)"
  by (simp add: unique_def)

text \<open>The summary of a table with at least one row returns; that of the frame without
  columns raises.\<close>

lemma create_summary_returns:
  "df \<noteq> [] \<Longrightarrow> \<exists>out. create_summary_by_country df = Inr out"
  unfolding create_summary_by_country_def Let_def
  using summary_loop_returns [of "sort (unique (map Country df))" df "[]"]
  by (simp add: set_unique)

lemma create_summary_empty:
  "create_summary_by_country [] = Inl (KeyError ''Country'')"
  by (simp add: create_summary_by_country_def)

lemma summary_row_of_country_cols:
  assumes "summary_row_of df c = Inr row"
  shows "Country row = c \<and>
     (\<exists>first. find (\<lambda>r. Country r = c) df = Some first \<and>
        ISO3 row = ISO3 first \<and>
        Population_Thousands row = Population_Thousands first \<and>
        LCC row = LCC first \<and> Vulnerability row = Vulnerability first)"
proof (cases "[r \<leftarrow> df. Country r = c]")
  case Nil
  with assms show ?thesis by (simp add: summary_row_of_def)
next
  case (Cons first rest)
  from filter_first_find [OF Cons] have "find (\<lambda>r. Country r = c) df = Some first" .
  moreover from assms Cons have "Country row = c \<and> ISO3 row = ISO3 first \<and>
        Population_Thousands row = Population_Thousands first \<and>
        LCC row = LCC first \<and> Vulnerability row = Vulnerability first"
    by (auto simp: summary_row_of_def Let_def split: prod.splits
          simp del: categorize_go_platform.simps categorize_inform.simps)
  ultimately show ?thesis by blast
qed

lemma summary_countries:
  assumes "create_summary_by_country df = Inr out"
  shows "map Country out = sort (unique (map Country df))"
    and "list_all2 (\<lambda>c row. summary_row_of df c = Inr row) (sort (unique (map Country df))) out"
proof -
  from assms have "summary_loop df [] (sort (unique (map Country df))) = Inr out"
    by (simp add: create_summary_by_country_def split: if_splits)
  with summary_loop_rows [of df "[]" "sort (unique (map Country df))" out]
  show la: "list_all2 (\<lambda>c row. summary_row_of df c = Inr row)
              (sort (unique (map Country df))) out"
    by simp
  then have "list_all2 (\<lambda>c row. Country row = c) (sort (unique (map Country df))) out"
    by (rule list_all2_mono) (simp add: summary_row_of_country_cols)
  then show "map Country out = sort (unique (map Country df))"
    by (induction rule: list_all2_induct) simp_all
qed

lemma summary_row_in:
  assumes "create_summary_by_country df = Inr out" and "row \<in> set out"
  shows "summary_row_of df (Country row) = Inr row"
proof -
  from summary_countries(2) [OF assms(1)] assms(2)
  obtain c where c: "summary_row_of df c = Inr row"
    by (auto simp: list_all2_conv_all_nth in_set_conv_nth)
  with summary_row_of_country_cols [OF c] show ?thesis by simp
qed

text \<open>The order of \<open>sorted\<close> puts an uppercase letter before every lowercase one.\<close>

lemma sorted_by_character_code_example:
  "sort [''eSwatini'', ''Zambia'', ''Chad''] = [''Chad'', ''Zambia'', ''eSwatini'']"
  by code_simp

text \<open>
  Claim C10. On a table with at least one row, \<open>create_summary_by_country\<close> returns
  exactly one row per distinct country name of the table, in ascending order of the names,
  and the \<open>ISO3\<close>, \<open>Population_Thousands\<close>, \<open>LCC\<close> and \<open>Vulnerability\<close> of a row are those of
  the first record of that country in the table. The order of names is the one \<open>sorted\<close>
  uses on strings: lexicographic, character by character, by character code, so that an
  uppercase letter comes before every lowercase one. On the frame built from no rows the
  function raises KeyError, by \<open>create_summary_empty\<close>.
\<close>

theorem summary_one_sorted_row_per_country:
  "df \<noteq> [] \<Longrightarrow>
   \<exists>out. create_summary_by_country df = Inr out \<and>
     distinct (map Country out) \<and>
     set (map Country out) = set (map Country df) \<and>
     sorted (map Country out) \<and>
     (\<forall>row \<in> set out. \<exists>first.
        find (\<lambda>r. Country r = Country row) df = Some first \<and>
        ISO3 row = ISO3 first \<and>
        Population_Thousands row = Population_Thousands first \<and>
        LCC row = LCC first \<and> Vulnerability row = Vulnerability first)"
proof -
  assume "df \<noteq> []"
  from create_summary_returns [OF this]
  obtain out where run: "create_summary_by_country df = Inr out" ..
  have names: "map Country out = sort (unique (map Country df))"
    by (rule summary_countries(1) [OF run])
  have "distinct (map Country out)" "sorted (map Country out)"
    "set (map Country out) = set (map Country df)"
    unfolding names by (simp_all add: distinct_unique set_unique)
  moreover have "\<forall>row \<in> set out. \<exists>first.
        find (\<lambda>r. Country r = Country row) df = Some first \<and>
        ISO3 row = ISO3 first \<and>
        Population_Thousands row = Population_Thousands first \<and>
        LCC row = LCC first \<and> Vulnerability row = Vulnerability first"
    using summary_row_of_country_cols [OF summary_row_in [OF run]] by blast
  ultimately show ?thesis using run by blast
qed

lemma hazard_cols_of_absent:
  assumes "\<forall>r \<in> set cd. Hazard_Type r \<noteq> h"
  shows "hazard_cols_of cd h = \<lparr> H_Sum = Num 0, H_Avg = Num 0, H_Peak = Num 0, H_GO_Num = 0,
        H_GO_Cat = ''No Data'', H_INFORM = ''No Data'' \<rparr>"
proof -
  from assms have "[r \<leftarrow> cd. Hazard_Type r = h] = []" by (simp add: filter_empty_conv)
  then show ?thesis by (simp add: hazard_cols_of_def)
qed

lemma hazard_cols_of_present:
  assumes "find (\<lambda>r. Country r = c \<and> Hazard_Type r = h) df = Some first"
  shows "hazard_cols_of [r \<leftarrow> df. Country r = c] h =
     \<lparr> H_Sum = np_float64 (Yearly_Sum first), H_Avg = np_float64 (Yearly_Average first),
       H_Peak = np_float64 (Peak_Month_Score first), H_GO_Num = GO_Category_Num first,
       H_GO_Cat = GO_Category first, H_INFORM = INFORM_Category first \<rparr>"
proof -
  from find_first_filter [OF assms] obtain rest where
    "[r \<leftarrow> df. Country r = c \<and> Hazard_Type r = h] = first # rest" ..
  then have "[r \<leftarrow> [r \<leftarrow> df. Country r = c]. Hazard_Type r = h] = first # rest"
    by (simp add: conj_commute)
  then show ?thesis by (simp add: hazard_cols_of_def)
qed

lemma summary_row_of_hazards:
  assumes "summary_row_of df c = Inr row"
  shows "hazard_columns row =
           [(h, hazard_cols_of [r \<leftarrow> df. Country r = c] h). h \<leftarrow> INCLUDED_HAZARDS]"
    and "Overall_Avg row =
           np_round (fdiv (foldl fadd (Num 0) (map (get_avg (hazard_columns row)) INCLUDED_HAZARDS))
                       (Num 3)) 2"
  using assms
  by (auto simp: summary_row_of_def Let_def INCLUDED_HAZARDS_def split: prod.splits list.splits
        simp del: categorize_go_platform.simps categorize_inform.simps fadd.simps fdiv.simps)

text \<open>
  Claim C8. In every summary row, a hazard for which the country has no record gets 0 in
  its Sum, Avg and Peak columns and in its GO number, and No Data in both category
  columns, while a hazard that has a record gets the columns of its first record; and
  \<open>Overall_Avg\<close> is the sum of the three per-hazard Avg columns, added from the left in
  float arithmetic, divided by 3 and rounded to two decimals, so that a missing hazard
  enters the sum as 0 and the divisor stays 3. This is for a table with at least one row.
\<close>

theorem summary_missing_hazard_counts_as_zero:
  "df \<noteq> [] \<Longrightarrow>
   \<exists>out. create_summary_by_country df = Inr out \<and>
     (\<forall>row \<in> set out.
        (\<forall>h \<in> set INCLUDED_HAZARDS.
           ((\<forall>r \<in> set df. Country r = Country row \<longrightarrow> Hazard_Type r \<noteq> h) \<longrightarrow>
            map_of (hazard_columns row) h =
              Some \<lparr> H_Sum = Num 0, H_Avg = Num 0, H_Peak = Num 0, H_GO_Num = 0,
                     H_GO_Cat = ''No Data'', H_INFORM = ''No Data'' \<rparr>) \<and>
           (\<forall>first. find (\<lambda>r. Country r = Country row \<and> Hazard_Type r = h) df = Some first \<longrightarrow>
            map_of (hazard_columns row) h =
              Some \<lparr> H_Sum = np_float64 (Yearly_Sum first),
                     H_Avg = np_float64 (Yearly_Average first),
                     H_Peak = np_float64 (Peak_Month_Score first),
                     H_GO_Num = GO_Category_Num first,
                     H_GO_Cat = GO_Category first,
                     H_INFORM = INFORM_Category first \<rparr>)) \<and>
        (\<exists>d f w. map_of (hazard_columns row) ''Drought'' = Some d \<and>
           map_of (hazard_columns row) ''Flood'' = Some f \<and>
           map_of (hazard_columns row) ''Wildfire'' = Some w \<and>
           Overall_Avg row =
             np_round (fdiv (fadd (fadd (fadd (Num 0) (H_Avg d)) (H_Avg f)) (H_Avg w))
                         (Num 3)) 2))"
proof -
  assume "df \<noteq> []"
  from create_summary_returns [OF this]
  obtain out where run: "create_summary_by_country df = Inr out" ..
  let ?nodata = "\<lparr> H_Sum = Num 0, H_Avg = Num 0, H_Peak = Num 0, H_GO_Num = 0,
                     H_GO_Cat = ''No Data'', H_INFORM = ''No Data'' \<rparr>"
  let ?of = "\<lambda>first. \<lparr> H_Sum = np_float64 (Yearly_Sum first),
                     H_Avg = np_float64 (Yearly_Average first),
                     H_Peak = np_float64 (Peak_Month_Score first),
                     H_GO_Num = GO_Category_Num first,
                     H_GO_Cat = GO_Category first,
                     H_INFORM = INFORM_Category first \<rparr>"
  have "(\<forall>h \<in> set INCLUDED_HAZARDS.
           ((\<forall>r \<in> set df. Country r = Country row \<longrightarrow> Hazard_Type r \<noteq> h) \<longrightarrow>
            map_of (hazard_columns row) h = Some ?nodata) \<and>
           (\<forall>first. find (\<lambda>r. Country r = Country row \<and> Hazard_Type r = h) df = Some first \<longrightarrow>
            map_of (hazard_columns row) h = Some (?of first))) \<and>
        (\<exists>d f w. map_of (hazard_columns row) ''Drought'' = Some d \<and>
           map_of (hazard_columns row) ''Flood'' = Some f \<and>
           map_of (hazard_columns row) ''Wildfire'' = Some w \<and>
           Overall_Avg row =
             np_round (fdiv (fadd (fadd (fadd (Num 0) (H_Avg d)) (H_Avg f)) (H_Avg w))
                         (Num 3)) 2)"
    if "row \<in> set out" for row
  proof -
    from summary_row_in [OF run that] have row: "summary_row_of df (Country row) = Inr row" .
    let ?cd = "[r \<leftarrow> df. Country r = Country row]"
    have cols: "hazard_columns row =
        [(''Drought'', hazard_cols_of ?cd ''Drought''), (''Flood'', hazard_cols_of ?cd ''Flood''),
         (''Wildfire'', hazard_cols_of ?cd ''Wildfire'')]"
      using summary_row_of_hazards(1) [OF row] by (simp add: INCLUDED_HAZARDS_def)
    have at: "map_of (hazard_columns row) h = Some (hazard_cols_of ?cd h)"
      if "h \<in> set INCLUDED_HAZARDS" for h
      using that unfolding cols by (auto simp: INCLUDED_HAZARDS_def)
    have avg: "Overall_Avg row =
        np_round (fdiv (fadd (fadd (fadd (Num 0) (H_Avg (hazard_cols_of ?cd ''Drought'')))
                                 (H_Avg (hazard_cols_of ?cd ''Flood'')))
                           (H_Avg (hazard_cols_of ?cd ''Wildfire''))) (Num 3)) 2"
      using summary_row_of_hazards(2) [OF row] unfolding cols
      by (simp add: INCLUDED_HAZARDS_def get_avg_def del: fadd.simps fdiv.simps)
    have absent: "map_of (hazard_columns row) h = Some ?nodata"
      if h: "h \<in> set INCLUDED_HAZARDS"
        and none: "\<forall>r \<in> set df. Country r = Country row \<longrightarrow> Hazard_Type r \<noteq> h" for h
    proof -
      from none have "\<forall>r \<in> set ?cd. Hazard_Type r \<noteq> h" by simp
      from hazard_cols_of_absent [OF this] at [OF h] show ?thesis by simp
    qed
    have present: "map_of (hazard_columns row) h = Some (?of first)"
      if h: "h \<in> set INCLUDED_HAZARDS"
        and first: "find (\<lambda>r. Country r = Country row \<and> Hazard_Type r = h) df = Some first"
      for h first
      using hazard_cols_of_present [OF first] at [OF h] by simp
    have three: "map_of (hazard_columns row) ''Drought'' = Some (hazard_cols_of ?cd ''Drought'')"
      "map_of (hazard_columns row) ''Flood'' = Some (hazard_cols_of ?cd ''Flood'')"
      "map_of (hazard_columns row) ''Wildfire'' = Some (hazard_cols_of ?cd ''Wildfire'')"
      by (simp_all add: at INCLUDED_HAZARDS_def)
    from absent present three avg show ?thesis by blast
  qed
  with run show ?thesis by blast
qed

lemma sample_names: "sort (unique (map Country sample_df)) = [''Chad'', ''Mali'']"
  by code_simp

theorem summary_one_sorted_row_per_country_witness:
  "\<exists>out. create_summary_by_country sample_df = Inr out \<and>
     map Country out = [''Chad'', ''Mali''] \<and> map ISO3 out = [''TCD'', ''MLI'']"
proof -
  have "sample_df \<noteq> []" by (simp add: sample_df_def)
  from summary_one_sorted_row_per_country [OF this] obtain out where
    run: "create_summary_by_country sample_df = Inr out" and
    first: "\<forall>row \<in> set out. \<exists>first.
        find (\<lambda>r. Country r = Country row) sample_df = Some first \<and> ISO3 row = ISO3 first"
    by blast
  from summary_countries(1) [OF run] have names: "map Country out = [''Chad'', ''Mali'']"
    by (simp add: sample_names)
  then obtain a b where out: "out = [a, b]" and a: "Country a = ''Chad''"
    and b: "Country b = ''Mali''"
    by (auto simp: map_eq_Cons_conv)
  from first out a have "ISO3 a = ''TCD''"
    by (auto simp: sample_df_def sample_row_def Let_def)
  moreover from first out b have "ISO3 b = ''MLI''"
    by (auto simp: sample_df_def sample_row_def Let_def)
  ultimately show ?thesis using run names out by simp
qed

text \<open>
  The sum is that of floats: the averages 2.26, 2.02 and 1.72 add up to a float just below
  6, and the country is Very Low overall.
\<close>

lemma summary_float_sum_example:
  "map_sum id (\<lambda>row. (Overall_Avg row, Overall_GO_Num row, Overall_INFORM row))
     (summary_row_of sample_df_three ''Togo'') = Inr (Num 2, 1, ''Very Low'')"
  by code_simp

lemma sample_chad_overall:
  "np_round (fdiv (fadd (fadd (fadd (Num 0) (np_float64 (PyFloat (Num 5.83)))) (Num 0)) (Num 0))
               (Num 3)) 2 = fl 1.94"
  by code_simp

theorem summary_missing_hazard_counts_as_zero_witness:
  "\<exists>out a b. create_summary_by_country sample_df = Inr out \<and> out = [a, b] \<and>
     map_of (hazard_columns a) ''Flood'' =
       Some \<lparr> H_Sum = Num 0, H_Avg = Num 0, H_Peak = Num 0, H_GO_Num = 0,
              H_GO_Cat = ''No Data'', H_INFORM = ''No Data'' \<rparr> \<and>
     map_of (hazard_columns a) ''Wildfire'' =
       Some \<lparr> H_Sum = Num 0, H_Avg = Num 0, H_Peak = Num 0, H_GO_Num = 0,
              H_GO_Cat = ''No Data'', H_INFORM = ''No Data'' \<rparr> \<and>
     (\<exists>d. map_of (hazard_columns a) ''Drought'' = Some d \<and>
          H_Avg d = np_float64 (PyFloat (Num 5.83)) \<and> H_GO_Cat d = ''High'') \<and>
     Overall_Avg a = fl 1.94"
proof -
  let ?nodata = "\<lparr> H_Sum = Num 0, H_Avg = Num 0, H_Peak = Num 0, H_GO_Num = 0,
              H_GO_Cat = ''No Data'', H_INFORM = ''No Data'' \<rparr>"
  let ?of = "\<lambda>first. \<lparr> H_Sum = np_float64 (Yearly_Sum first),
                     H_Avg = np_float64 (Yearly_Average first),
                     H_Peak = np_float64 (Peak_Month_Score first),
                     H_GO_Num = GO_Category_Num first,
                     H_GO_Cat = GO_Category first,
                     H_INFORM = INFORM_Category first \<rparr>"
  have "sample_df \<noteq> []" by (simp add: sample_df_def)
  from summary_missing_hazard_counts_as_zero [OF this] obtain out where
    run: "create_summary_by_country sample_df = Inr out" and
    rows: "\<forall>row \<in> set out.
        (\<forall>h \<in> set INCLUDED_HAZARDS.
           ((\<forall>r \<in> set sample_df. Country r = Country row \<longrightarrow> Hazard_Type r \<noteq> h) \<longrightarrow>
            map_of (hazard_columns row) h = Some ?nodata) \<and>
           (\<forall>first. find (\<lambda>r. Country r = Country row \<and> Hazard_Type r = h) sample_df
                      = Some first \<longrightarrow>
            map_of (hazard_columns row) h = Some (?of first))) \<and>
        (\<exists>d f w. map_of (hazard_columns row) ''Drought'' = Some d \<and>
           map_of (hazard_columns row) ''Flood'' = Some f \<and>
           map_of (hazard_columns row) ''Wildfire'' = Some w \<and>
           Overall_Avg row =
             np_round (fdiv (fadd (fadd (fadd (Num 0) (H_Avg d)) (H_Avg f)) (H_Avg w))
                         (Num 3)) 2)"
    by blast
  from summary_countries(1) [OF run] have "map Country out = [''Chad'', ''Mali'']"
    by (simp add: sample_names)
  then obtain a b where out: "out = [a, b]" and a: "Country a = ''Chad''"
    by (auto simp: map_eq_Cons_conv)
  have no_flood: "\<forall>r \<in> set sample_df. Country r = Country a \<longrightarrow> Hazard_Type r \<noteq> ''Flood''"
    and no_fire: "\<forall>r \<in> set sample_df. Country r = Country a \<longrightarrow> Hazard_Type r \<noteq> ''Wildfire''"
    by (simp_all add: a sample_df_def sample_row_def Let_def)
  have drought: "find (\<lambda>r. Country r = Country a \<and> Hazard_Type r = ''Drought'') sample_df
      = Some (sample_row ''Chad'' ''TCD'' ''Drought'' 5.83)"
    by (simp add: a sample_df_def sample_row_def Let_def)
  have hz: "''Drought'' \<in> set INCLUDED_HAZARDS" "''Flood'' \<in> set INCLUDED_HAZARDS"
    "''Wildfire'' \<in> set INCLUDED_HAZARDS"
    by (simp_all add: INCLUDED_HAZARDS_def)
  from rows out have ra: "\<forall>h \<in> set INCLUDED_HAZARDS.
           ((\<forall>r \<in> set sample_df. Country r = Country a \<longrightarrow> Hazard_Type r \<noteq> h) \<longrightarrow>
            map_of (hazard_columns a) h = Some ?nodata) \<and>
           (\<forall>first. find (\<lambda>r. Country r = Country a \<and> Hazard_Type r = h) sample_df
                      = Some first \<longrightarrow>
            map_of (hazard_columns a) h = Some (?of first))"
    and avg: "\<exists>d f w. map_of (hazard_columns a) ''Drought'' = Some d \<and>
           map_of (hazard_columns a) ''Flood'' = Some f \<and>
           map_of (hazard_columns a) ''Wildfire'' = Some w \<and>
           Overall_Avg a =
             np_round (fdiv (fadd (fadd (fadd (Num 0) (H_Avg d)) (H_Avg f)) (H_Avg w))
                         (Num 3)) 2"
    by simp_all
  from ra hz(2) no_flood have flood: "map_of (hazard_columns a) ''Flood'' = Some ?nodata"
    by blast
  from ra hz(3) no_fire have fire: "map_of (hazard_columns a) ''Wildfire'' = Some ?nodata"
    by blast
  from ra hz(1) drought have dr: "map_of (hazard_columns a) ''Drought'' =
      Some (?of (sample_row ''Chad'' ''TCD'' ''Drought'' 5.83))"
    by blast
  have d_avg: "H_Avg (?of (sample_row ''Chad'' ''TCD'' ''Drought'' 5.83)) =
      np_float64 (PyFloat (Num 5.83))"
    and d_cat: "H_GO_Cat (?of (sample_row ''Chad'' ''TCD'' ''Drought'' 5.83)) = ''High''"
    by (simp_all add: sample_row_def Let_def del: np_float64.simps)
  from avg have "Overall_Avg a =
      np_round (fdiv (fadd (fadd (fadd (Num 0) (np_float64 (PyFloat (Num 5.83)))) (Num 0))
                       (Num 0)) (Num 3)) 2"
    unfolding dr flood fire
    by (simp add: sample_row_def Let_def del: np_float64.simps fadd.simps fdiv.simps)
  then have overall: "Overall_Avg a = fl 1.94" by (simp only: sample_chad_overall)
  from dr d_avg d_cat have "\<exists>d. map_of (hazard_columns a) ''Drought'' = Some d \<and>
          H_Avg d = np_float64 (PyFloat (Num 5.83)) \<and> H_GO_Cat d = ''High''"
    by blast
  with run out flood fire overall show ?thesis by blast
qed

section \<open>Fetching: one request, guarded by the status code\<close>

lemma default_url: "risk_score_url 0 9999 =
  ''https://go-risk.northeurope.cloudapp.azure.com/api/v1/risk-score/?region=0&limit=9999''"
  by (simp add: risk_score_url_def str_of_int_def str_of_nat.simps)

text \<open>
  Claim C5, as amended. \<open>fetch_risk_scores\<close> sends exactly one GET, to the URL built from
  the region and the limit, the limit being 9999 unless the caller passes another, and
  never a second one. If the request itself fails, its exception is the outcome. If a
  response arrives with a status other than 200, the call raises. If the status is 200,
  the call returns the \<open>results\<close> list of the body, whole, exactly when the body decodes to
  a JSON object that holds \<open>count\<close> and \<open>results\<close>, and raises otherwise. A raise carries no
  data.
\<close>

theorem fetch_one_get_status_guard:
  "\<exists>url. url = risk_score_url (case region of None \<Rightarrow> 0 | Some r \<Rightarrow> r)
                               (case limit of None \<Rightarrow> 9999 | Some l \<Rightarrow> l) \<and>
     requests_sent (snd (fetch_risk_scores srv region limit w)) = requests_sent w @ [url] \<and>
     (\<forall>e. srv url = Inl e \<longrightarrow> fst (fetch_risk_scores srv region limit w) = Inl e) \<and>
     (\<forall>resp. srv url = Inr resp \<longrightarrow>
        (status_code resp \<noteq> 200 \<longrightarrow>
           fst (fetch_risk_scores srv region limit w) = Inl (ApiRequestFailed (status_code resp))) \<and>
        (status_code resp = 200 \<longrightarrow>
           (\<forall>rs. fst (fetch_risk_scores srv region limit w) = Inr rs \<longleftrightarrow>
              (\<exists>data n. json resp = Some data \<and> json_count data = Some n \<and>
                 json_results data = Some rs))))"
  by (auto simp: fetch_risk_scores_def requests_get_def print_def Let_def
        split: sum.splits option.splits)

text \<open>
  Claim C5 as stated says that the call raises only when the status is not 200. A server
  that answers 200 with a body that is not JSON makes the call raise.
\<close>

theorem fetch_raises_iff_status_counterexample:
  "html_server (risk_score_url 0 9999) = Inr \<lparr> status_code = 200, json = None \<rparr> \<and>
   fst (fetch_risk_scores html_server None None empty_world) = Inl JSONDecodeError"
  by (simp add: fetch_risk_scores_def requests_get_def print_def html_server_def Let_def)

theorem fetch_one_get_status_guard_witness:
  "requests_sent (snd (fetch_risk_scores busy_server None None empty_world)) =
     [''https://go-risk.northeurope.cloudapp.azure.com/api/v1/risk-score/?region=0&limit=9999''] \<and>
   fst (fetch_risk_scores busy_server None None empty_world) = Inl (ApiRequestFailed 503) \<and>
   fst (fetch_risk_scores good_server None None empty_world) =
     Inr [sample_record ''Mali'' ''mli'' ''Flood'' (Val 4) Missing]"
  using fetch_one_get_status_guard [of None None busy_server empty_world]
    fetch_one_get_status_guard [of None None good_server empty_world]
  by (simp add: default_url busy_server_def good_server_def empty_world_def)

section \<open>Normalisation by the square root of the population\<close>

lemma truncate_add_norm_columns: "sheet_row.truncate (add_norm_columns r) = r"
  by (simp add: add_norm_columns_def Let_def sheet_row.truncate_def sheet_row.extend_def)

lemma add_norm_columns_sheet:
  "ISO3_xl (add_norm_columns r) = ISO3_xl r"
  "Population_Thousands_xl (add_norm_columns r) = Population_Thousands_xl r"
  "Drought_Avg (add_norm_columns r) = Drought_Avg r"
  "Flood_Avg (add_norm_columns r) = Flood_Avg r"
  "Overall_Avg_xl (add_norm_columns r) = Overall_Avg_xl r"
  by (simp_all add: add_norm_columns_def Let_def sheet_row.extend_def)

lemma add_norm_columns_norms:
  "Pop_Sqrt (add_norm_columns r) = fsqrt (as_double (Population_Thousands_xl r))"
  "Drought_Norm (add_norm_columns r) =
     np_round (fdiv (as_double (Drought_Avg r)) (fsqrt (as_double (Population_Thousands_xl r)))) 4"
  "Flood_Norm (add_norm_columns r) =
     np_round (fdiv (as_double (Flood_Avg r)) (fsqrt (as_double (Population_Thousands_xl r)))) 4"
  "Overall_Norm (add_norm_columns r) =
     np_round (fdiv (as_double (Overall_Avg_xl r))
                 (fsqrt (as_double (Population_Thousands_xl r)))) 4"
  by (simp_all add: add_norm_columns_def Let_def sheet_row.extend_def viz_row.fields_def)

text \<open>
  Claim C4. The rows that \<open>load_and_normalize_data\<close> returns are the rows of the sheet
  whose ISO3 is present and not empty, in order and with their columns unchanged; the rows
  with a missing or empty ISO3 are dropped. In every returned row, each of the three
  normalised scores is the row's average for that column divided by the square root of
  the row's population and rounded to four decimals, the square root, the division and the
  rounding being those of numpy on floats; an empty cell makes the scores that depend on
  it NaN and leaves the others as they are.
\<close>

theorem normalize_by_sqrt_population:
  "map sheet_row.truncate (load_and_normalize_data summary_df) =
     [r \<leftarrow> summary_df. ISO3_xl r \<noteq> None \<and> ISO3_xl r \<noteq> Some ''''] \<and>
   (\<forall>v \<in> set (load_and_normalize_data summary_df).
      Pop_Sqrt v = fsqrt (as_double (Population_Thousands_xl v)) \<and>
      Drought_Norm v = np_round (fdiv (as_double (Drought_Avg v)) (Pop_Sqrt v)) 4 \<and>
      Flood_Norm v = np_round (fdiv (as_double (Flood_Avg v)) (Pop_Sqrt v)) 4 \<and>
      Overall_Norm v = np_round (fdiv (as_double (Overall_Avg_xl v)) (Pop_Sqrt v)) 4)"
proof
  show "map sheet_row.truncate (load_and_normalize_data summary_df) =
     [r \<leftarrow> summary_df. ISO3_xl r \<noteq> None \<and> ISO3_xl r \<noteq> Some '''']"
    by (induction summary_df)
       (simp_all add: load_and_normalize_data_def truncate_add_norm_columns
          add_norm_columns_sheet)
next
  show "\<forall>v \<in> set (load_and_normalize_data summary_df).
      Pop_Sqrt v = fsqrt (as_double (Population_Thousands_xl v)) \<and>
      Drought_Norm v = np_round (fdiv (as_double (Drought_Avg v)) (Pop_Sqrt v)) 4 \<and>
      Flood_Norm v = np_round (fdiv (as_double (Flood_Avg v)) (Pop_Sqrt v)) 4 \<and>
      Overall_Norm v = np_round (fdiv (as_double (Overall_Avg_xl v)) (Pop_Sqrt v)) 4"
  proof
    fix v assume "v \<in> set (load_and_normalize_data summary_df)"
    then obtain r where r: "v = add_norm_columns r"
      by (auto simp: load_and_normalize_data_def)
    show "Pop_Sqrt v = fsqrt (as_double (Population_Thousands_xl v)) \<and>
      Drought_Norm v = np_round (fdiv (as_double (Drought_Avg v)) (Pop_Sqrt v)) 4 \<and>
      Flood_Norm v = np_round (fdiv (as_double (Flood_Avg v)) (Pop_Sqrt v)) 4 \<and>
      Overall_Norm v = np_round (fdiv (as_double (Overall_Avg_xl v)) (Pop_Sqrt v)) 4"
      unfolding r add_norm_columns_norms add_norm_columns_sheet by simp
  qed
qed

lemma sample_sheet_load:
  "load_and_normalize_data sample_sheet =
     [add_norm_columns (sample_sheet ! 0), add_norm_columns (sample_sheet ! 3)]"
  by (simp add: load_and_normalize_data_def sample_sheet_def add_norm_columns_sheet)

lemma sqrt_four: "fsqrt (as_double (Num 4)) = Num 2"
proof -
  have "as_double (Num 4) = Num 4" by code_simp
  moreover have "fl 2 = Num 2" by code_simp
  ultimately show ?thesis by simp
qed

lemma sqrt_sixty_four: "fsqrt (as_double (Num 64)) = Num 8"
proof -
  have "as_double (Num 64) = Num 64" by code_simp
  moreover have "sqrt 64 = 8" by (rule real_sqrt_unique) simp_all
  moreover have "fl 8 = Num 8" by code_simp
  ultimately show ?thesis by simp
qed

lemma sample_norms:
  "np_round (fdiv (as_double (Num 0.0003)) (Num 2)) 4 = fl 0.0001"
  "np_round (fdiv (as_double NaN) (Num 2)) 4 = NaN"
  "np_round (fdiv (as_double (Num 2.00005)) (Num 2)) 4 = Num 1"
  "np_round (fdiv (as_double (Num 0.17)) (Num 8)) 4 = fl 0.0213"
  "np_round (fdiv (as_double (Num 1)) (Num 8)) 4 = Num 0.125"
  "np_round (fdiv (as_double (Num 0)) (Num 8)) 4 = Num 0"
  by code_simp+

theorem normalize_by_sqrt_population_witness:
  "map ISO3_xl (load_and_normalize_data sample_sheet) = [Some ''KEN'', Some ''MLI''] \<and>
   map Pop_Sqrt (load_and_normalize_data sample_sheet) = [Num 2, Num 8] \<and>
   map Drought_Norm (load_and_normalize_data sample_sheet) = [fl 0.0001, fl 0.0213] \<and>
   map Flood_Norm (load_and_normalize_data sample_sheet) = [NaN, Num 0.125] \<and>
   map Overall_Norm (load_and_normalize_data sample_sheet) = [Num 1, Num 0]"
proof -
  let ?a = "add_norm_columns (sample_sheet ! 0)"
  let ?b = "add_norm_columns (sample_sheet ! 3)"
  have cols_a: "ISO3_xl ?a = Some ''KEN''" "Population_Thousands_xl ?a = Num 4"
    "Drought_Avg ?a = Num 0.0003" "Flood_Avg ?a = NaN" "Overall_Avg_xl ?a = Num 2.00005"
    by (simp_all add: add_norm_columns_sheet sample_sheet_def)
  have cols_b: "ISO3_xl ?b = Some ''MLI''" "Population_Thousands_xl ?b = Num 64"
    "Drought_Avg ?b = Num 0.17" "Flood_Avg ?b = Num 1" "Overall_Avg_xl ?b = Num 0"
    by (simp_all add: add_norm_columns_sheet sample_sheet_def)
  from normalize_by_sqrt_population [of sample_sheet]
  have a: "Pop_Sqrt ?a = fsqrt (as_double (Population_Thousands_xl ?a)) \<and>
      Drought_Norm ?a = np_round (fdiv (as_double (Drought_Avg ?a)) (Pop_Sqrt ?a)) 4 \<and>
      Flood_Norm ?a = np_round (fdiv (as_double (Flood_Avg ?a)) (Pop_Sqrt ?a)) 4 \<and>
      Overall_Norm ?a = np_round (fdiv (as_double (Overall_Avg_xl ?a)) (Pop_Sqrt ?a)) 4"
    and b: "Pop_Sqrt ?b = fsqrt (as_double (Population_Thousands_xl ?b)) \<and>
      Drought_Norm ?b = np_round (fdiv (as_double (Drought_Avg ?b)) (Pop_Sqrt ?b)) 4 \<and>
      Flood_Norm ?b = np_round (fdiv (as_double (Flood_Avg ?b)) (Pop_Sqrt ?b)) 4 \<and>
      Overall_Norm ?b = np_round (fdiv (as_double (Overall_Avg_xl ?b)) (Pop_Sqrt ?b)) 4"
    unfolding sample_sheet_load by simp_all
  from a have "Pop_Sqrt ?a = Num 2 \<and> Drought_Norm ?a = fl 0.0001 \<and> Flood_Norm ?a = NaN \<and>
      Overall_Norm ?a = Num 1"
    unfolding cols_a sqrt_four by (simp only: sample_norms)
  moreover from b have "Pop_Sqrt ?b = Num 8 \<and> Drought_Norm ?b = fl 0.0213 \<and>
      Flood_Norm ?b = Num 0.125 \<and> Overall_Norm ?b = Num 0"
    unfolding cols_b sqrt_sixty_four by (simp only: sample_norms)
  ultimately show ?thesis
    unfolding sample_sheet_load using cols_a(1) cols_b(1) by simp
qed

section \<open>The steps leave their input and the rest of the store alone\<close>

lemma those_eq_Some: "those xs = Some ys \<longleftrightarrow> xs = map Some ys"
proof (induction xs arbitrary: ys)
  case Nil
  show ?case by auto
next
  case (Cons x xs)
  show ?case by (cases x; cases ys) (auto simp: Cons.IH)
qed

lemma map_Some_defined:
  "map f xs = map Some ys \<Longrightarrow> x \<in> set xs \<Longrightarrow> \<exists>y. f x = Some y"
  by (induction xs arbitrary: ys) auto

lemma lookup_Some_less: "lookup h a = Some obj \<Longrightarrow> a < length h"
  by (simp add: lookup_def split: if_splits)

lemma lookup_append_old: "a < length h \<Longrightarrow> lookup (h @ ext) a = lookup h a"
  by (simp add: lookup_def nth_append)

lemma lookup_append_new: "lookup (h @ [obj]) (length h) = Some obj"
  by (simp add: lookup_def)

text \<open>Placing a new object and appending its address to the list at \<open>l\<close>.\<close>

lemma push_list:
  assumes "lookup h l = Some (PyList xs)"
  shows "lookup (list_append l (length h) (h @ [obj])) l = Some (PyList (xs @ [length h]))"
    and "lookup (list_append l (length h) (h @ [obj])) (length h) = Some obj"
    and "a < length h \<Longrightarrow> a \<noteq> l \<Longrightarrow>
           lookup (list_append l (length h) (h @ [obj])) a = lookup h a"
    and "n \<le> l \<Longrightarrow> take n (list_append l (length h) (h @ [obj])) = take n h"
proof -
  from assms have l: "l < length h" by (rule lookup_Some_less)
  with assms have old: "lookup (h @ [obj]) l = Some (PyList xs)"
    by (simp add: lookup_append_old)
  then have eq: "list_append l (length h) (h @ [obj]) = (h @ [obj])[l := PyList (xs @ [length h])]"
    by (simp add: list_append_def)
  from l show "lookup (list_append l (length h) (h @ [obj])) l = Some (PyList (xs @ [length h]))"
    unfolding eq by (simp add: lookup_def)
  from l show "lookup (list_append l (length h) (h @ [obj])) (length h) = Some obj"
    unfolding eq by (simp add: lookup_def)
  show "a < length h \<Longrightarrow> a \<noteq> l \<Longrightarrow>
           lookup (list_append l (length h) (h @ [obj])) a = lookup h a"
    unfolding eq by (simp add: lookup_def nth_append)
  show "n \<le> l \<Longrightarrow> take n (list_append l (length h) (h @ [obj])) = take n h"
    unfolding eq using l by simp
qed

lemma process_loop_st_correct:
  assumes "lookup h pd = Some (PyList ps)" and "n0 \<le> pd"
    and "map (deref_api h) as = map Some rs" and "\<forall>a \<in> set as. a < n0"
    and "map (deref_row h) ps = map Some acc"
  shows "take n0 (snd (process_loop_st pd as h)) = take n0 h \<and>
         returned_rows (process_loop_st pd as h) = map_sum id Some (process_loop acc rs)"
  using assms
proof (induction as arbitrary: h ps acc rs)
  case Nil
  then show ?case
    by (simp add: returned_rows_def detail_rows_def those_eq_Some)
next
  case (Cons a as)
  from Cons.prems(3) obtain r rs' where rs: "rs = r # rs'" and a: "deref_api h a = Some r"
    and rest: "map (deref_api h) as = map Some rs'"
    by (cases rs) auto
  from Cons.prems(1) have pd: "pd < length h" by (rule lookup_Some_less)
  show ?case
  proof (cases "process_record r")
    case (Inl e)
    with a rs show ?thesis by (simp add: returned_rows_def)
  next
    case (Inr row)
    let ?h = "list_append pd (length h) (h @ [DetailRow row])"
    note push = push_list [OF Cons.prems(1), where obj = "DetailRow row"]
    have step: "process_loop_st pd (a # as) h = process_loop_st pd as ?h"
      using a Inr by (simp add: alloc_def)
    have api: "map (deref_api ?h) as = map Some rs'"
    proof -
      have "deref_api ?h b = deref_api h b" if "b \<in> set as" for b
      proof -
        from that Cons.prems(2,4) pd have "b < length h" "b \<noteq> pd" by auto
        then show ?thesis by (simp add: deref_api_def push(3))
      qed
      then have "map (deref_api ?h) as = map (deref_api h) as" by simp
      with rest show ?thesis by simp
    qed
    have rows: "map (deref_row ?h) (ps @ [length h]) = map Some (acc @ [row])"
    proof -
      have "deref_row ?h b = deref_row h b" if "b \<in> set ps" for b
      proof -
        from map_Some_defined [OF Cons.prems(5) that] obtain v where v: "deref_row h b = Some v" ..
        then have "lookup h b = Some (DetailRow v)"
          by (auto simp: deref_row_def split: option.splits pyobj.splits)
        with Cons.prems(1) have "b < length h" "b \<noteq> pd"
          by (auto dest: lookup_Some_less)
        then show ?thesis by (simp add: deref_row_def push(3))
      qed
      then have "map (deref_row ?h) ps = map (deref_row h) ps" by simp
      moreover have "deref_row ?h (length h) = Some row"
        by (simp add: deref_row_def push(2))
      ultimately show ?thesis using Cons.prems(5) by simp
    qed
    have "\<forall>a \<in> set as. a < n0" using Cons.prems(4) by simp
    from Cons.IH [OF push(1) Cons.prems(2) api this rows] push(4) [OF Cons.prems(2)]
    show ?thesis unfolding step rs using Inr by simp
  qed
qed

lemma process_risk_data_st_correct:
  assumes "api_records h results = Some rs"
  shows "take (length h) (snd (process_risk_data_st results h)) = h \<and>
         returned_rows (process_risk_data_st results h) = map_sum id Some (process_risk_data rs)"
proof -
  from assms obtain recs where recs: "lookup h results = Some (PyList recs)"
    and vals: "map (deref_api h) recs = map Some rs"
    by (auto simp: api_records_def those_eq_Some split: option.splits pyobj.splits)
  have old: "\<forall>a \<in> set recs. a < length h"
  proof
    fix a assume "a \<in> set recs"
    from map_Some_defined [OF vals this] show "a < length h"
      by (auto simp: deref_api_def dest: lookup_Some_less split: option.splits)
  qed
  let ?h = "h @ [PyList []]"
  have run: "process_risk_data_st results h = process_loop_st (length h) recs ?h"
    using recs by (simp add: process_risk_data_st_def alloc_def)
  have "map (deref_api ?h) recs = map (deref_api h) recs"
    using old by (simp add: deref_api_def lookup_append_old)
  with vals have vals': "map (deref_api ?h) recs = map Some rs" by simp
  have "map (deref_row ?h) [] = map Some []" by simp
  from process_loop_st_correct [OF lookup_append_new order_refl vals' old this]
  show ?thesis unfolding run by (simp add: process_risk_data_def)
qed


lemma summary_loop_st_correct:
  assumes "lookup h sd = Some (PyList ps)" and "n0 \<le> sd"
    and "detail_frame h df = Some rows" and "df < n0"
    and "map (deref_summary h) ps = map Some acc"
  shows "take n0 (snd (summary_loop_st df sd cs h)) = take n0 h \<and>
         (case fst (summary_loop_st df sd cs h) of
            Inl e \<Rightarrow> summary_loop rows acc cs = Inl e
          | Inr p \<Rightarrow> \<exists>out. summary_loop rows acc cs = Inr out \<and>
                      summary_rows (snd (summary_loop_st df sd cs h)) p = Some out)"
  using assms
proof (induction cs arbitrary: h ps acc)
  case Nil
  then show ?case by (simp add: summary_rows_def those_eq_Some)
next
  case (Cons c cs)
  from Cons.prems(1) have sd: "sd < length h" by (rule lookup_Some_less)
  show ?case
  proof (cases "summary_row_of rows c")
    case (Inl e)
    with Cons.prems(3) show ?thesis by simp
  next
    case (Inr row)
    let ?h = "list_append sd (length h) (h @ [SummaryRow row])"
    note push = push_list [OF Cons.prems(1), where obj = "SummaryRow row"]
    have step: "summary_loop_st df sd (c # cs) h = summary_loop_st df sd cs ?h"
      using Cons.prems(3) Inr by (simp add: alloc_def)
    have frame: "detail_frame ?h df = Some rows"
    proof -
      from Cons.prems(2,4) sd have "df < length h" "df \<noteq> sd" by auto
      with Cons.prems(3) show ?thesis by (simp add: detail_frame_def push(3))
    qed
    have rows: "map (deref_summary ?h) (ps @ [length h]) = map Some (acc @ [row])"
    proof -
      have "deref_summary ?h b = deref_summary h b" if "b \<in> set ps" for b
      proof -
        from map_Some_defined [OF Cons.prems(5) that] obtain v where "deref_summary h b = Some v" ..
        then have "lookup h b = Some (SummaryRow v)"
          by (auto simp: deref_summary_def split: option.splits pyobj.splits)
        with Cons.prems(1) have "b < length h" "b \<noteq> sd"
          by (auto dest: lookup_Some_less)
        then show ?thesis by (simp add: deref_summary_def push(3))
      qed
      then have "map (deref_summary ?h) ps = map (deref_summary h) ps" by simp
      moreover have "deref_summary ?h (length h) = Some row"
        by (simp add: deref_summary_def push(2))
      ultimately show ?thesis using Cons.prems(5) by simp
    qed
    from Cons.IH [OF push(1) Cons.prems(2) frame Cons.prems(4) rows] push(4) [OF Cons.prems(2)]
    show ?thesis unfolding step using Inr by (auto split: sum.splits)
  qed
qed

lemma create_summary_by_country_st_correct:
  assumes "detail_frame h df = Some rows"
  shows "take (length h) (snd (create_summary_by_country_st df h)) = h \<and>
         returned_frame (create_summary_by_country_st df h) =
           map_sum id Some (create_summary_by_country rows)"
proof -
  let ?h = "h @ [PyList []]"
  let ?cs = "sort (unique (map Country rows))"
  let ?loop = "summary_loop_st df (length h) ?cs ?h"
  from assms have df: "df < length h"
    by (auto simp: detail_frame_def dest: lookup_Some_less split: option.splits)
  with assms have frame: "detail_frame ?h df = Some rows"
    by (simp add: detail_frame_def lookup_append_old)
  have "map (deref_summary ?h) [] = map Some []" by simp
  from summary_loop_st_correct [OF lookup_append_new order_refl frame df this, of ?cs]
  have keep: "take (length h) (snd ?loop) = h"
    and res: "case fst ?loop of
            Inl e \<Rightarrow> summary_loop rows [] ?cs = Inl e
          | Inr p \<Rightarrow> \<exists>out. summary_loop rows [] ?cs = Inr out \<and>
                      summary_rows (snd ?loop) p = Some out"
    by simp_all
  show ?thesis
  proof (cases "rows = []")
    case True
    with assms show ?thesis
      by (simp add: create_summary_by_country_st_def alloc_def returned_frame_def
            create_summary_by_country_def)
  next
    case False
    then have run: "create_summary_by_country_st df h =
        (case ?loop of
           (Inl e, h) \<Rightarrow> (Inl e, h)
         | (Inr summary_data, h) \<Rightarrow>
             (case summary_rows h summary_data of
                None \<Rightarrow> (Inl TypeError, h)
              | Some srows \<Rightarrow> (let (out, h) = alloc (SummaryFrame srows) h in (Inr out, h))))"
      using assms by (simp add: create_summary_by_country_st_def alloc_def Let_def)
    from False have pure: "create_summary_by_country rows = summary_loop rows [] ?cs"
      by (simp add: create_summary_by_country_def)
    obtain r h2 where loop: "?loop = (r, h2)" by (cases ?loop)
    from keep loop have keep2: "take (length h) h2 = h" by simp
    then have len: "length h \<le> length h2"
      by (metis length_take min.cobounded1)
    show ?thesis
    proof (cases r)
      case (Inl e)
      with res loop keep2 show ?thesis
        unfolding run pure by (simp add: returned_frame_def)
    next
      case (Inr p)
      with res loop obtain out where out: "summary_loop rows [] ?cs = Inr out"
        and rows: "summary_rows h2 p = Some out"
        by auto
      from Inr loop rows keep2 len out show ?thesis
        unfolding run pure
        by (simp add: returned_frame_def alloc_def summary_frame_def lookup_append_new)
    qed
  qed
qed

lemma api_records_extend:
  assumes "api_records h l = Some rs"
  shows "api_records (h @ ext) l = Some rs"
proof -
  from assms obtain recs where recs: "lookup h l = Some (PyList recs)"
    and vals: "map (deref_api h) recs = map Some rs"
    by (auto simp: api_records_def those_eq_Some split: option.splits pyobj.splits)
  have "deref_api (h @ ext) a = deref_api h a" if "a \<in> set recs" for a
  proof -
    from map_Some_defined [OF vals that] have "a < length h"
      by (auto simp: deref_api_def dest: lookup_Some_less split: option.splits)
    then show ?thesis by (simp add: deref_api_def lookup_append_old)
  qed
  then have "map (deref_api (h @ ext)) recs = map (deref_api h) recs" by simp
  moreover from recs have "lookup (h @ ext) l = Some (PyList recs)"
    by (simp add: lookup_append_old lookup_Some_less)
  ultimately show ?thesis using vals by (simp add: api_records_def those_eq_Some)
qed

lemma detail_frame_extend:
  assumes "detail_frame h a = Some rows"
  shows "detail_frame (h @ ext) a = Some rows"
proof -
  from assms have "lookup h a = Some (DetailFrame rows)"
    by (auto simp: detail_frame_def split: option.splits pyobj.splits)
  then have "lookup (h @ ext) a = Some (DetailFrame rows)"
    by (simp add: lookup_append_old lookup_Some_less)
  then show ?thesis by (simp add: detail_frame_def)
qed

lemma take_length_extends: "take (length h) h' = h \<Longrightarrow> \<exists>ext. h' = h @ ext"
  by (metis append_take_drop_id)

text \<open>
  Claim C7. \<open>process_risk_data\<close> and \<open>create_summary_by_country\<close> are stateless
  transformations. Run on a store in which the argument stands for the records \<open>rs\<close> (for
  the rows \<open>rows\<close>), each of them leaves every object of that store as it was, the input
  among them, and only adds new objects; what it hands back, rows or exception, is the
  value of the function on \<open>rs\<close> (on \<open>rows\<close>) and so depends on nothing else; a second run,
  on any store and at any address where the argument stands for the same values, hands
  back the same.
\<close>

theorem pipeline_steps_stateless:
  "(api_records h results = Some rs \<longrightarrow>
      take (length h) (snd (process_risk_data_st results h)) = h \<and>
      api_records (snd (process_risk_data_st results h)) results = Some rs \<and>
      returned_rows (process_risk_data_st results h) = map_sum id Some (process_risk_data rs) \<and>
      (\<forall>h' results'. api_records h' results' = Some rs \<longrightarrow>
         returned_rows (process_risk_data_st results' h') =
         returned_rows (process_risk_data_st results h))) \<and>
   (detail_frame h df = Some rows \<longrightarrow>
      take (length h) (snd (create_summary_by_country_st df h)) = h \<and>
      detail_frame (snd (create_summary_by_country_st df h)) df = Some rows \<and>
      returned_frame (create_summary_by_country_st df h) =
        map_sum id Some (create_summary_by_country rows) \<and>
      (\<forall>h' df'. detail_frame h' df' = Some rows \<longrightarrow>
         returned_frame (create_summary_by_country_st df' h') =
         returned_frame (create_summary_by_country_st df h)))"
proof (intro conjI impI)
  assume a: "api_records h results = Some rs"
  from process_risk_data_st_correct [OF a]
  show "take (length h) (snd (process_risk_data_st results h)) = h"
    and "returned_rows (process_risk_data_st results h) = map_sum id Some (process_risk_data rs)"
    by simp_all
  from process_risk_data_st_correct [OF a] take_length_extends
  obtain ext where "snd (process_risk_data_st results h) = h @ ext" by blast
  with api_records_extend [OF a]
  show "api_records (snd (process_risk_data_st results h)) results = Some rs" by simp
  show "\<forall>h' results'. api_records h' results' = Some rs \<longrightarrow>
         returned_rows (process_risk_data_st results' h') =
         returned_rows (process_risk_data_st results h)"
    using process_risk_data_st_correct [OF a] process_risk_data_st_correct by simp
next
  assume a: "detail_frame h df = Some rows"
  from create_summary_by_country_st_correct [OF a]
  show "take (length h) (snd (create_summary_by_country_st df h)) = h"
    and "returned_frame (create_summary_by_country_st df h) =
        map_sum id Some (create_summary_by_country rows)"
    by simp_all
  from create_summary_by_country_st_correct [OF a] take_length_extends
  obtain ext where "snd (create_summary_by_country_st df h) = h @ ext" by blast
  with detail_frame_extend [OF a]
  show "detail_frame (snd (create_summary_by_country_st df h)) df = Some rows" by simp
  show "\<forall>h' df'. detail_frame h' df' = Some rows \<longrightarrow>
         returned_frame (create_summary_by_country_st df' h') =
         returned_frame (create_summary_by_country_st df h)"
    using create_summary_by_country_st_correct [OF a] create_summary_by_country_st_correct
    by simp
qed

theorem pipeline_steps_stateless_witness:
  "api_records sample_store 1 =
     Some [sample_record ''Mali'' ''mli'' ''Flood'' (Val 4) Missing,
           sample_record ''Chad'' ''tcd'' ''Drought'' (Val 6) (Val 70),
           sample_record ''Mali'' ''mli'' ''Flood'' (Val 4) Missing] \<and>
   take 4 (snd (process_risk_data_st 1 sample_store)) = sample_store \<and>
   detail_frame sample_store 2 = Some sample_df \<and>
   take 4 (snd (create_summary_by_country_st 2 sample_store)) = sample_store \<and>
   returned_frame (create_summary_by_country_st 2 sample_store) =
     map_sum id Some (create_summary_by_country sample_df)"
proof -
  let ?rs = "[sample_record ''Mali'' ''mli'' ''Flood'' (Val 4) Missing,
           sample_record ''Chad'' ''tcd'' ''Drought'' (Val 6) (Val 70),
           sample_record ''Mali'' ''mli'' ''Flood'' (Val 4) Missing]"
  have a: "api_records sample_store 1 = Some ?rs"
    by (simp add: api_records_def deref_api_def lookup_def sample_store_def)
  have b: "detail_frame sample_store 2 = Some sample_df"
    by (simp add: detail_frame_def lookup_def sample_store_def)
  have len: "length sample_store = 4" by (simp add: sample_store_def)
  from a b len pipeline_steps_stateless [of sample_store 1 ?rs 2 sample_df]
  show ?thesis by simp
qed

end
